theory Spec2Isabelle
  imports Main
begin

section \<open>The group store of \<open>store/sqlstore/group_supplier.go\<close>\<close>

text \<open>
  The supplier keeps groups, group members and the links between groups and teams or
  channels in four SQL tables, and reads four tables of other stores in its two
  reconciliation queries. The model is a shallow embedding: a table is the list of its
  rows, a statement is a function on tables, and every supplier method takes the tables
  and returns its \<open>LayeredStoreSupplierResult\<close> together with the tables it leaves
  behind. The clock (\<open>model.GetMillis()\<close>) is an argument of each method that reads it.
  Failures of the connection itself are outside the model; the errors a statement raises
  because of the rows or the schema (no row, several rows for \<open>SelectOne\<close>, a violated
  key, an unknown column, a negative \<open>LIMIT\<close>) are values of \<open>sql_error\<close>.
\<close>

subsection \<open>Errors and results\<close>

text \<open>
  \<open>model.NewAppError(where, id, params, details, status)\<close>: the model keeps the place,
  the message id and the HTTP status; \<open>params\<close> is always \<open>nil\<close> in this file and the
  details string only repeats the arguments and the driver's message.
\<close>

datatype AppError = NewAppError (Where: string) (ErrId: string) (StatusCode: nat)

definition StatusBadRequest :: nat where "StatusBadRequest = 400"
definition StatusNotFound :: nat where "StatusNotFound = 404"
definition StatusInternalServerError :: nat where "StatusInternalServerError = 500"

text \<open>
  \<open>store.LayeredStoreSupplierResult\<close>: \<open>Data\<close> is an \<open>interface{}\<close> and \<open>Err\<close> an error
  pointer. \<open>None\<close> in \<open>Data\<close> stands for a result that holds no entity: the field was never
  assigned, or it was assigned a pointer that is \<open>nil\<close>.
\<close>

record 'a LayeredStoreSupplierResult =
  Data :: "'a option"
  Err :: "AppError option"

definition NewSupplierResult :: "'a LayeredStoreSupplierResult" where
  "NewSupplierResult = \<lparr>Data = None, Err = None\<rparr>"

datatype sql_error =
    ErrNoRows
  | ErrMultipleRows
  | ErrUniqueConstraint
  | ErrUnknownColumn string string
  | ErrNegativeLimit

subsection \<open>Entities\<close>

text \<open>
  The structs \<open>model.Group\<close>, \<open>model.GroupMember\<close> and \<open>model.GroupSyncable\<close> are declared
  in package \<open>model\<close>; their fields are the ones this file reads and writes and the
  columns it configures. Field names carry a prefix because the three structs share
  \<open>CreateAt\<close> and \<open>DeleteAt\<close>; a variable the source calls \<open>group\<close> is \<open>grp\<close> here.
\<close>

record Group =
  g_Id :: string
  g_Name :: string
  g_DisplayName :: string
  g_Description :: string
  g_Type :: string
  g_RemoteId :: string
  g_CreateAt :: int
  g_UpdateAt :: int
  g_DeleteAt :: int

record GroupMember =
  gm_GroupId :: string
  gm_UserId :: string
  gm_CreateAt :: int
  gm_DeleteAt :: int

text \<open>
  Modelled from the spec: the declaration of \<open>model.GroupSyncableType\<close> is not in this
  file; the type tag has the two variants Team and Channel, which the file names
  \<open>model.GSTeam\<close> and \<open>model.GSChannel\<close>, and \<open>String()\<close> gives the word the statements
  are built from.
\<close>

datatype GroupSyncableType = GSTeam | GSChannel

fun String :: "GroupSyncableType \<Rightarrow> string" where
  "String GSTeam = ''Team''"
| "String GSChannel = ''Channel''"

record GroupSyncable =
  gs_GroupId :: string
  gs_SyncableId :: string
  gs_CanLeave :: bool
  gs_AutoAdd :: bool
  gs_CreateAt :: int
  gs_UpdateAt :: int
  gs_DeleteAt :: int
  gs_Type :: GroupSyncableType

text \<open>
  A row of \<open>GroupTeams\<close> or of \<open>GroupChannels\<close>. \<open>initSqlSupplierGroups\<close> maps the struct
  to both tables and renames the column of \<open>SyncableId\<close> to \<open>TeamId\<close> in the first and to
  \<open>ChannelId\<close> in the second; \<open>row_FkId\<close> is that column. The type tag is not stored.
\<close>

record SyncableRow =
  row_GroupId :: string
  row_FkId :: string
  row_CanLeave :: bool
  row_AutoAdd :: bool
  row_CreateAt :: int
  row_UpdateAt :: int
  row_DeleteAt :: int

record store =
  Groups :: "Group list"
  GroupMembers :: "GroupMember list"
  GroupTeams :: "SyncableRow list"
  GroupChannels :: "SyncableRow list"

text \<open>
  What package \<open>model\<close> provides and this file only calls: the identifier check, the
  validations of the three entities, and the zero value of the type tag, which is what a
  freshly scanned \<open>GroupSyncable\<close> carries in \<open>Type\<close>. They are parameters of the model.
\<close>

record model_env =
  IsValidId :: "string \<Rightarrow> bool"
  Group_IsValidForUpdate :: "Group \<Rightarrow> AppError option"
  GroupMember_IsValid :: "GroupMember \<Rightarrow> AppError option"
  GroupSyncable_IsValid :: "GroupSyncable \<Rightarrow> AppError option"
  GroupSyncableType_zero :: GroupSyncableType

subsection \<open>The statements gorp issues\<close>

text \<open>
  \<open>SelectOne\<close> into a struct pointer: no row is \<open>sql.ErrNoRows\<close>, one row is scanned, and
  more than one row is an error of gorp's own.
\<close>

fun SelectOne :: "'a list \<Rightarrow> sql_error + 'a" where
  "SelectOne [] = Inl ErrNoRows"
| "SelectOne [x] = Inr x"
| "SelectOne (x # y # zs) = Inl ErrMultipleRows"

text \<open>
  \<open>Update(group)\<close> writes every column of the row whose key is \<open>Id\<close> and reports the
  number of rows matched. \<open>Name\<close> is declared unique, so the statement is refused when
  it would give the name of another row to a row it writes.
\<close>

definition gorp_Update_Groups :: "Group list \<Rightarrow> Group \<Rightarrow> sql_error + (nat \<times> Group list)" where
  "gorp_Update_Groups rows grp =
     (if (\<exists>r \<in> set rows. g_Id r = g_Id grp) \<and>
         (\<exists>r \<in> set rows. g_Id r \<noteq> g_Id grp \<and> g_Name r = g_Name grp)
      then Inl ErrUniqueConstraint
      else Inr (length (filter (\<lambda>r. g_Id r = g_Id grp) rows),
                map (\<lambda>r. if g_Id r = g_Id grp then grp else r) rows))"

definition member_key :: "GroupMember \<Rightarrow> string \<times> string" where
  "member_key m = (gm_GroupId m, gm_UserId m)"

text \<open>\<open>Insert(member)\<close>: the key \<open>(GroupId, UserId)\<close> is the primary key of the table.\<close>

definition gorp_Insert_GroupMembers :: "GroupMember list \<Rightarrow> GroupMember \<Rightarrow> sql_error + GroupMember list" where
  "gorp_Insert_GroupMembers rows member =
     (if member_key member \<in> set (map member_key rows) then Inl ErrUniqueConstraint
      else Inr (rows @ [member]))"

text \<open>
  \<open>Update(member)\<close> writes \<open>CreateAt\<close> and \<open>DeleteAt\<close> of the row with the member's key. No
  constraint of the table can refuse it, so the \<open>update_error\<close> branch of its caller has
  no counterpart in the model.
\<close>

definition gorp_Update_GroupMembers :: "GroupMember list \<Rightarrow> GroupMember \<Rightarrow> nat \<times> GroupMember list" where
  "gorp_Update_GroupMembers rows member =
     (length (filter (\<lambda>r. member_key r = member_key member) rows),
      map (\<lambda>r. if member_key r = member_key member then member else r) rows)"

definition IsUniqueConstraintError :: "sql_error \<Rightarrow> bool" where
  "IsUniqueConstraintError err = (err = ErrUniqueConstraint)"

subsection \<open>Groups\<close>

definition error_result :: "string \<Rightarrow> string \<Rightarrow> nat \<Rightarrow> 'a LayeredStoreSupplierResult" where
  "error_result w i s = \<lparr>Data = None, Err = Some (NewAppError w i s)\<rparr>"

definition GroupUpdate ::
  "model_env \<Rightarrow> int \<Rightarrow> store \<Rightarrow> Group \<Rightarrow> Group LayeredStoreSupplierResult \<times> store" where
  "GroupUpdate M now st grp =
     (case SelectOne (filter (\<lambda>g. g_Id g = g_Id grp) (Groups st)) of
        Inl err \<Rightarrow>
          (if err = ErrNoRows
           then (error_result ''SqlGroupStore.GroupUpdate'' ''store.sql_group.update.no_rows'' StatusNotFound, st)
           else (error_result ''SqlGroupStore.GroupUpdate'' ''store.sql_group.update.select_error'' StatusInternalServerError, st))
      | Inr retrievedGroup \<Rightarrow>
          (let grp' = grp\<lparr>g_DeleteAt := g_DeleteAt retrievedGroup,
                              g_CreateAt := g_CreateAt retrievedGroup,
                              g_UpdateAt := now\<rparr>
           in case Group_IsValidForUpdate M grp' of
                Some err \<Rightarrow> (\<lparr>Data = None, Err = Some err\<rparr>, st)
              | None \<Rightarrow>
                  (case gorp_Update_Groups (Groups st) grp' of
                     Inl err \<Rightarrow>
                       (error_result ''SqlGroupStore.GroupUpdate'' ''store.sql_group.update.update_error'' StatusInternalServerError, st)
                   | Inr (rowsChanged, rows') \<Rightarrow>
                       (if rowsChanged \<noteq> 1
                        then (error_result ''SqlGroupStore.GroupUpdate'' ''store.sql_group.update.no_rows_changed'' StatusInternalServerError,
                              st\<lparr>Groups := rows'\<rparr>)
                        else (\<lparr>Data = Some grp', Err = None\<rparr>, st\<lparr>Groups := rows'\<rparr>)))))"

text \<open>
  \<open>GroupDelete\<close> records the error of an invalid id and goes on (there is no \<open>return\<close>
  in that branch), so a later branch overwrites \<open>Err\<close> or adds \<open>Data\<close> to it.
\<close>

definition GroupDelete ::
  "model_env \<Rightarrow> int \<Rightarrow> store \<Rightarrow> string \<Rightarrow> Group LayeredStoreSupplierResult \<times> store" where
  "GroupDelete M time st groupID =
     (let result = (if \<not> IsValidId M groupID
                    then error_result ''SqlGroupStore.Delete'' ''store.sql_group.delete.invalid_group_id'' StatusBadRequest
                    else NewSupplierResult)
      in case SelectOne (filter (\<lambda>g. g_Id g = groupID) (Groups st)) of
           Inl err \<Rightarrow>
             (if err = ErrNoRows
              then (result\<lparr>Err := Some (NewAppError ''SqlGroupStore.Delete'' ''store.sql_group.delete.no_rows'' StatusNotFound)\<rparr>, st)
              else (result\<lparr>Err := Some (NewAppError ''SqlGroupStore.Delete'' ''store.sql_group.delete.select_error'' StatusInternalServerError)\<rparr>, st))
         | Inr grp \<Rightarrow>
             (if g_DeleteAt grp \<noteq> 0
              then (result\<lparr>Err := Some (NewAppError ''SqlGroupStore.Delete'' ''store.sql_group.delete.already_deleted'' StatusInternalServerError)\<rparr>, st)
              else (let grp' = grp\<lparr>g_DeleteAt := time, g_UpdateAt := time\<rparr>
                    in case gorp_Update_Groups (Groups st) grp' of
                         Inl err \<Rightarrow>
                           (result\<lparr>Err := Some (NewAppError ''SqlGroupStore.Delete'' ''store.sql_group.delete.update_error'' StatusInternalServerError)\<rparr>, st)
                       | Inr (rowsChanged, rows') \<Rightarrow>
                           (if rowsChanged \<noteq> 1
                            then (result\<lparr>Err := Some (NewAppError ''SqlGroupStore.Delete'' ''store.sql_group.delete.no_rows_affected'' StatusInternalServerError)\<rparr>,
                                  st\<lparr>Groups := rows'\<rparr>)
                            else (result\<lparr>Data := Some grp'\<rparr>, st\<lparr>Groups := rows'\<rparr>)))))"

subsection \<open>Group members\<close>

definition GroupCreateMember ::
  "model_env \<Rightarrow> int \<Rightarrow> store \<Rightarrow> string \<Rightarrow> string \<Rightarrow> GroupMember LayeredStoreSupplierResult \<times> store" where
  "GroupCreateMember M now st groupID userID =
     (let member = \<lparr>gm_GroupId = groupID, gm_UserId = userID, gm_CreateAt = now, gm_DeleteAt = 0\<rparr>
      in case GroupMember_IsValid M member of
           Some err \<Rightarrow> (\<lparr>Data = None, Err = Some err\<rparr>, st)
         | None \<Rightarrow>
             (case gorp_Insert_GroupMembers (GroupMembers st) member of
                Inl err \<Rightarrow>
                  (if IsUniqueConstraintError err
                   then (error_result ''SqlGroupStore.CreateMember'' ''store.sql_group.create_member.unique_error'' StatusBadRequest, st)
                   else (error_result ''SqlGroupStore.CreateMember'' ''store.sql_group.create_member.save.insert_error'' StatusInternalServerError, st))
              | Inr rows' \<Rightarrow>
                  (let st' = st\<lparr>GroupMembers := rows'\<rparr>
                   in case SelectOne (filter (\<lambda>r. gm_GroupId r = gm_GroupId member \<and> gm_UserId r = gm_UserId member) rows') of
                        Inl err \<Rightarrow>
                          (if err = ErrNoRows
                           then (error_result ''SqlGroupStore.CreateMember'' ''store.sql_group.create_member.no_rows'' StatusNotFound, st')
                           else (error_result ''SqlGroupStore.CreateMember'' ''store.sql_group.create_member.select_error'' StatusInternalServerError, st'))
                      | Inr retrievedMember \<Rightarrow> (\<lparr>Data = Some retrievedMember, Err = None\<rparr>, st'))))"

definition GroupDeleteMember ::
  "model_env \<Rightarrow> int \<Rightarrow> store \<Rightarrow> string \<Rightarrow> string \<Rightarrow> GroupMember LayeredStoreSupplierResult \<times> store" where
  "GroupDeleteMember M now st groupID userID =
     (if \<not> IsValidId M groupID
      then (error_result ''SqlGroupStore.DeleteMember'' ''store.sql_group.delete_member.invalid_group_id'' StatusBadRequest, st)
      else if \<not> IsValidId M userID
      then (error_result ''SqlGroupStore.DeleteMember'' ''store.sql_group.delete_member.invalid_user_id'' StatusBadRequest, st)
      else case SelectOne (filter (\<lambda>r. gm_GroupId r = groupID \<and> gm_UserId r = userID) (GroupMembers st)) of
             Inl err \<Rightarrow>
               (if err = ErrNoRows
                then (error_result ''SqlGroupStore.DeleteMember'' ''store.sql_group.delete_member.no_rows'' StatusNotFound, st)
                else (error_result ''SqlGroupStore.DeleteMember'' ''store.sql_group.delete_member.select_error'' StatusInternalServerError, st))
           | Inr retrievedMember \<Rightarrow>
               (if gm_DeleteAt retrievedMember \<noteq> 0
                then (error_result ''SqlGroupStore.DeleteMember'' ''store.sql_group.delete_member.already_deleted'' StatusInternalServerError, st)
                else (let retrievedMember' = retrievedMember\<lparr>gm_DeleteAt := now\<rparr>;
                          (rowsChanged, rows') = gorp_Update_GroupMembers (GroupMembers st) retrievedMember'
                      in if rowsChanged \<noteq> 1
                         then (error_result ''SqlGroupStore.DeleteMember'' ''store.sql_scheme.delete_member.no_rows_affected'' StatusInternalServerError,
                               st\<lparr>GroupMembers := rows'\<rparr>)
                         else (\<lparr>Data = Some retrievedMember', Err = None\<rparr>, st\<lparr>GroupMembers := rows'\<rparr>))))"

subsection \<open>Links between a group and a team or a channel\<close>

text \<open>\<open>Group%ss\<close> formatted with \<open>Type.String()\<close>: the table a statement works on.\<close>

fun syncable_table :: "GroupSyncableType \<Rightarrow> store \<Rightarrow> SyncableRow list" where
  "syncable_table GSTeam st = GroupTeams st"
| "syncable_table GSChannel st = GroupChannels st"

fun set_syncable_table :: "GroupSyncableType \<Rightarrow> SyncableRow list \<Rightarrow> store \<Rightarrow> store" where
  "set_syncable_table GSTeam rows st = st\<lparr>GroupTeams := rows\<rparr>"
| "set_syncable_table GSChannel rows st = st\<lparr>GroupChannels := rows\<rparr>"

text \<open>
  Scanning a row into \<open>*model.GroupSyncable\<close>: the renamed column is not scanned (the
  source says so where it repopulates the field), so \<open>SyncableId\<close> stays empty and
  \<open>Type\<close> keeps its zero value.
\<close>

definition scan_GroupSyncable :: "model_env \<Rightarrow> SyncableRow \<Rightarrow> GroupSyncable" where
  "scan_GroupSyncable M r =
     \<lparr>gs_GroupId = row_GroupId r, gs_SyncableId = [], gs_CanLeave = row_CanLeave r,
      gs_AutoAdd = row_AutoAdd r, gs_CreateAt = row_CreateAt r, gs_UpdateAt = row_UpdateAt r,
      gs_DeleteAt = row_DeleteAt r, gs_Type = GroupSyncableType_zero M\<rparr>"

definition syncable_key_rows :: "GroupSyncableType \<Rightarrow> store \<Rightarrow> string \<Rightarrow> string \<Rightarrow> SyncableRow list" where
  "syncable_key_rows t st groupID syncableID =
     filter (\<lambda>r. row_GroupId r = groupID \<and> row_FkId r = syncableID) (syncable_table t st)"

definition GroupGetGroupSyncable ::
  "model_env \<Rightarrow> store \<Rightarrow> string \<Rightarrow> string \<Rightarrow> GroupSyncableType \<Rightarrow> GroupSyncable LayeredStoreSupplierResult" where
  "GroupGetGroupSyncable M st groupID syncableID syncableType =
     (case SelectOne (syncable_key_rows syncableType st groupID syncableID) of
        Inl err \<Rightarrow>
          (if err \<noteq> ErrNoRows
           then error_result ''SqlGroupStore.Get'' ''store.sql_group.get_group_syncable.select_error'' StatusInternalServerError
           else \<lparr>Data = None, Err = None\<rparr>)
      | Inr r \<Rightarrow> \<lparr>Data = Some ((scan_GroupSyncable M r)\<lparr>gs_SyncableId := syncableID\<rparr>), Err = None\<rparr>)"

text \<open>
  The local struct \<open>GroupSyncableScanner\<close> embeds \<open>model.GroupSyncable\<close> and adds a field
  for each of the two column names; a row of one table fills one of them.
\<close>

record GroupSyncableScanner =
  sc_GroupSyncable :: GroupSyncable
  sc_TeamId :: string
  sc_ChannelId :: string

fun scan_GroupSyncableScanner :: "model_env \<Rightarrow> GroupSyncableType \<Rightarrow> SyncableRow \<Rightarrow> GroupSyncableScanner" where
  "scan_GroupSyncableScanner M GSTeam r =
     \<lparr>sc_GroupSyncable = scan_GroupSyncable M r, sc_TeamId = row_FkId r, sc_ChannelId = []\<rparr>"
| "scan_GroupSyncableScanner M GSChannel r =
     \<lparr>sc_GroupSyncable = scan_GroupSyncable M r, sc_TeamId = [], sc_ChannelId = row_FkId r\<rparr>"

text \<open>
  \<open>SELECT * from Group%ss WHERE GroupId = :GroupId ORDER BY CreateAt DESC LIMIT :Limit
  OFFSET :Offset\<close>. SQL leaves the order of rows with equal \<open>CreateAt\<close> open; the model
  keeps them in table order. A negative limit or offset is refused by the database.
\<close>

definition select_page :: "SyncableRow list \<Rightarrow> string \<Rightarrow> int \<Rightarrow> int \<Rightarrow> sql_error + SyncableRow list" where
  "select_page rows groupID offset limit =
     (if limit < 0 \<or> offset < 0 then Inl ErrNegativeLimit
      else Inr (take (nat limit) (drop (nat offset)
                  (sort_key (\<lambda>r. - row_CreateAt r) (filter (\<lambda>r. row_GroupId r = groupID) rows)))))"

text \<open>
  The body of the loop over the scanned rows. With the two variants of the type tag the
  \<open>default: continue\<close> branch of the switch is never taken.
\<close>

fun remap_scanner :: "model_env \<Rightarrow> GroupSyncableType \<Rightarrow> GroupSyncableScanner \<Rightarrow> GroupSyncable" where
  "remap_scanner M syncableType gsScan =
     (let gs = \<lparr>gs_GroupId = gs_GroupId (sc_GroupSyncable gsScan),
                gs_SyncableId = [],
                gs_CanLeave = gs_CanLeave (sc_GroupSyncable gsScan),
                gs_AutoAdd = gs_AutoAdd (sc_GroupSyncable gsScan),
                gs_CreateAt = gs_CreateAt (sc_GroupSyncable gsScan),
                gs_UpdateAt = gs_UpdateAt (sc_GroupSyncable gsScan),
                gs_DeleteAt = gs_DeleteAt (sc_GroupSyncable gsScan),
                gs_Type = GroupSyncableType_zero M\<rparr>
      in case syncableType of
           GSTeam \<Rightarrow> gs\<lparr>gs_SyncableId := sc_TeamId gsScan\<rparr>
         | GSChannel \<Rightarrow> gs\<lparr>gs_SyncableId := sc_ChannelId gsScan\<rparr>)"

definition GroupGetAllGroupSyncablesByGroupPage ::
  "model_env \<Rightarrow> store \<Rightarrow> string \<Rightarrow> GroupSyncableType \<Rightarrow> int \<Rightarrow> int \<Rightarrow> GroupSyncable list LayeredStoreSupplierResult" where
  "GroupGetAllGroupSyncablesByGroupPage M st groupID syncableType offset limit =
     (case select_page (syncable_table syncableType st) groupID offset limit of
        Inl err \<Rightarrow>
          (if err = ErrNoRows then \<lparr>Data = Some [], Err = None\<rparr>
           else error_result ''SqlGroupStore.GetAllGroupSyncablesByGroupPage''
                  ''store.sql_group.get_all_group_syncables_by_group_page.select_error'' StatusInternalServerError)
      | Inr page \<Rightarrow>
          \<lparr>Data = Some (map (remap_scanner M syncableType) (map (scan_GroupSyncableScanner M syncableType) page)),
           Err = None\<rparr>)"

text \<open>
  The \<open>UPDATE\<close> of \<open>GroupUpdateGroupSyncable\<close> is
  \<open>UPDATE Group%ss SET CanLeave = %t, AutoAdd = %t, UpdateAt = %d\<close>: it has no \<open>WHERE\<close>
  clause, so it writes the three columns in every row of the table. \<open>Exec\<close> reports no
  error for it (\<open>sql.ErrNoRows\<close> is an error of queries only), and the number of rows it
  affected is not read.
\<close>

definition update_all_syncables :: "SyncableRow list \<Rightarrow> bool \<Rightarrow> bool \<Rightarrow> int \<Rightarrow> SyncableRow list" where
  "update_all_syncables rows canLeave autoAdd updateAt =
     map (\<lambda>r. r\<lparr>row_CanLeave := canLeave, row_AutoAdd := autoAdd, row_UpdateAt := updateAt\<rparr>) rows"

definition GroupUpdateGroupSyncable ::
  "model_env \<Rightarrow> int \<Rightarrow> store \<Rightarrow> GroupSyncable \<Rightarrow> GroupSyncable LayeredStoreSupplierResult \<times> store" where
  "GroupUpdateGroupSyncable M now st groupSyncable =
     (case SelectOne (syncable_key_rows (gs_Type groupSyncable) st (gs_GroupId groupSyncable) (gs_SyncableId groupSyncable)) of
        Inl err \<Rightarrow>
          (if err = ErrNoRows
           then (error_result ''SqlGroupStore.UpdateGroupSyncable'' ''store.sql_group.update_group_syncable.no_rows'' StatusInternalServerError, st)
           else (error_result ''SqlGroupStore.UpdateGroupSyncable'' ''store.sql_group.update_group_syncable.select_error'' StatusInternalServerError, st))
      | Inr r \<Rightarrow>
          (let retrievedGroupSyncable = scan_GroupSyncable M r
           in case GroupSyncable_IsValid M groupSyncable of
                Some err \<Rightarrow> (\<lparr>Data = None, Err = Some err\<rparr>, st)
              | None \<Rightarrow>
                  (if gs_AutoAdd retrievedGroupSyncable = gs_AutoAdd groupSyncable \<and>
                      gs_CanLeave retrievedGroupSyncable = gs_CanLeave groupSyncable
                   then (error_result ''SqlGroupStore.UpdateGroupSyncable'' ''store.sql_group.update_group_syncable.no_change'' StatusInternalServerError, st)
                   else (let groupSyncable' = groupSyncable\<lparr>gs_DeleteAt := gs_DeleteAt retrievedGroupSyncable,
                                                              gs_CreateAt := gs_CreateAt retrievedGroupSyncable,
                                                              gs_UpdateAt := now\<rparr>
                         in (\<lparr>Data = Some groupSyncable', Err = None\<rparr>,
                             set_syncable_table (gs_Type groupSyncable')
                               (update_all_syncables (syncable_table (gs_Type groupSyncable') st)
                                  (gs_CanLeave groupSyncable') (gs_AutoAdd groupSyncable') (gs_UpdateAt groupSyncable'))
                               st)))))"

text \<open>
  The \<open>UPDATE\<close> of \<open>GroupDeleteGroupSyncable\<close> names the row:
  \<open>UPDATE Group%ss SET DeleteAt = %d, UpdateAt = %d WHERE GroupId = '%s' AND %sId = '%s'\<close>.
\<close>

definition delete_syncable_rows :: "SyncableRow list \<Rightarrow> string \<Rightarrow> string \<Rightarrow> int \<Rightarrow> int \<Rightarrow> nat \<times> SyncableRow list" where
  "delete_syncable_rows rows groupID syncableID deleteAt updateAt =
     (length (filter (\<lambda>r. row_GroupId r = groupID \<and> row_FkId r = syncableID) rows),
      map (\<lambda>r. if row_GroupId r = groupID \<and> row_FkId r = syncableID
                then r\<lparr>row_DeleteAt := deleteAt, row_UpdateAt := updateAt\<rparr> else r) rows)"

definition GroupDeleteGroupSyncable ::
  "model_env \<Rightarrow> int \<Rightarrow> store \<Rightarrow> string \<Rightarrow> string \<Rightarrow> GroupSyncableType \<Rightarrow> GroupSyncable LayeredStoreSupplierResult \<times> store" where
  "GroupDeleteGroupSyncable M time st groupID syncableID syncableType =
     (if \<not> IsValidId M groupID
      then (error_result ''SqlGroupStore.DeleteGroupSyncable'' ''store.sql_group.delete_group_syncable.invalid_group_id'' StatusBadRequest, st)
      else if \<not> IsValidId M syncableID
      then (error_result ''SqlGroupStore.DeleteGroupSyncable'' ''store.sql_group.delete_group_syncable.invalid_syncable_id'' StatusBadRequest, st)
      else case SelectOne (syncable_key_rows syncableType st groupID syncableID) of
             Inl err \<Rightarrow>
               (if err = ErrNoRows
                then (error_result ''SqlGroupStore.DeleteGroupSyncable'' ''store.sql_group.delete_group_syncable.no_rows'' StatusNotFound, st)
                else (error_result ''SqlGroupStore.DeleteGroupSyncable'' ''store.sql_group.delete_group_syncable.select_error'' StatusInternalServerError, st))
           | Inr r \<Rightarrow>
               (let groupSyncable = scan_GroupSyncable M r
                in if gs_DeleteAt groupSyncable \<noteq> 0
                   then (error_result ''SqlGroupStore.DeleteGroupSyncable'' ''store.sql_group.delete_group_syncable.already_deleted'' StatusBadRequest, st)
                   else (let groupSyncable' = groupSyncable\<lparr>gs_SyncableId := syncableID, gs_Type := syncableType,
                                                              gs_DeleteAt := time, gs_UpdateAt := time\<rparr>;
                             (rowsAffected, rows') =
                                delete_syncable_rows (syncable_table (gs_Type groupSyncable') st)
                                  (gs_GroupId groupSyncable') (gs_SyncableId groupSyncable')
                                  (gs_DeleteAt groupSyncable') (gs_UpdateAt groupSyncable');
                             st' = set_syncable_table (gs_Type groupSyncable') rows' st
                         in if rowsAffected = 0
                            then (error_result ''SqlGroupStore.DeleteGroupSyncable'' ''store.sql_group.delete_group_syncable.no_rows_affected'' StatusInternalServerError, st')
                            else (\<lparr>Data = Some groupSyncable', Err = None\<rparr>, st'))))"

subsection \<open>The SQL of the reconciliation queries\<close>

text \<open>
  The two reconciliation methods hand a \<open>SELECT\<close> with joins to the database. The
  statement is data of the program, so the model keeps it as data: a small syntax of
  \<open>SELECT\<close> statements, and the way a database runs one. A value is \<open>NULL\<close>, a number, a
  string or a boolean; a row gives a value to each column name; a table has its column
  names and its rows.
\<close>

datatype sqlval = SqlNull | SqlInt int | SqlStr string | SqlBool bool

type_synonym sqlrow = "(string \<times> sqlval) list"

record sqltable =
  tbl_columns :: "string list"
  tbl_rows :: "sqlrow list"

text \<open>
  The tables of this file, as \<open>initSqlSupplierGroups\<close> maps them: a column per field,
  under the field's name, except \<open>SyncableId\<close>, which is renamed to \<open>TeamId\<close> in
  \<open>GroupTeams\<close> and to \<open>ChannelId\<close> in \<open>GroupChannels\<close> (the \<open>INSERT\<close> of
  \<open>GroupCreateGroupSyncable\<close> names the same columns).
\<close>

definition Groups_table :: "Group list \<Rightarrow> sqltable" where
  "Groups_table gs =
     \<lparr>tbl_columns = [''Id'', ''Name'', ''DisplayName'', ''Description'', ''Type'', ''RemoteId'',
                     ''CreateAt'', ''UpdateAt'', ''DeleteAt''],
      tbl_rows = map (\<lambda>g. [(''Id'', SqlStr (g_Id g)), (''Name'', SqlStr (g_Name g)),
                            (''DisplayName'', SqlStr (g_DisplayName g)), (''Description'', SqlStr (g_Description g)),
                            (''Type'', SqlStr (g_Type g)), (''RemoteId'', SqlStr (g_RemoteId g)),
                            (''CreateAt'', SqlInt (g_CreateAt g)), (''UpdateAt'', SqlInt (g_UpdateAt g)),
                            (''DeleteAt'', SqlInt (g_DeleteAt g))]) gs\<rparr>"

definition GroupMembers_table :: "GroupMember list \<Rightarrow> sqltable" where
  "GroupMembers_table ms =
     \<lparr>tbl_columns = [''GroupId'', ''UserId'', ''CreateAt'', ''DeleteAt''],
      tbl_rows = map (\<lambda>m. [(''GroupId'', SqlStr (gm_GroupId m)), (''UserId'', SqlStr (gm_UserId m)),
                            (''CreateAt'', SqlInt (gm_CreateAt m)), (''DeleteAt'', SqlInt (gm_DeleteAt m))]) ms\<rparr>"

definition syncable_sqltable :: "GroupSyncableType \<Rightarrow> SyncableRow list \<Rightarrow> sqltable" where
  "syncable_sqltable t rs =
     \<lparr>tbl_columns = [''GroupId'', String t @ ''Id'', ''CanLeave'', ''AutoAdd'', ''CreateAt'', ''UpdateAt'', ''DeleteAt''],
      tbl_rows = map (\<lambda>r. [(''GroupId'', SqlStr (row_GroupId r)), (String t @ ''Id'', SqlStr (row_FkId r)),
                            (''CanLeave'', SqlBool (row_CanLeave r)), (''AutoAdd'', SqlBool (row_AutoAdd r)),
                            (''CreateAt'', SqlInt (row_CreateAt r)), (''UpdateAt'', SqlInt (row_UpdateAt r)),
                            (''DeleteAt'', SqlInt (row_DeleteAt r))]) rs\<rparr>"

text \<open>
  The tables of the team and channel stores that the two statements read. Their mapping
  is not in this file, so their column names and rows are a parameter.
\<close>

record ext_tables =
  TeamMembers :: sqltable
  Channels :: sqltable
  Teams :: sqltable
  ChannelMemberHistory :: sqltable

definition database :: "store \<Rightarrow> ext_tables \<Rightarrow> (string \<times> sqltable) list" where
  "database st ext =
     [(''Groups'', Groups_table (Groups st)),
      (''GroupMembers'', GroupMembers_table (GroupMembers st)),
      (''GroupTeams'', syncable_sqltable GSTeam (GroupTeams st)),
      (''GroupChannels'', syncable_sqltable GSChannel (GroupChannels st)),
      (''TeamMembers'', TeamMembers ext),
      (''Channels'', Channels ext),
      (''Teams'', Teams ext),
      (''ChannelMemberHistory'', ChannelMemberHistory ext)]"

text \<open>
  A statement: the selected columns, the first table, the joins in the order they are
  written, each with the conjuncts of its \<open>ON\<close> condition, and the conjuncts of \<open>WHERE\<close>.
  A condition compares two operands, each a qualified column or a literal (a bound
  parameter is the literal bound to it).
\<close>

datatype sqlexpr = Col string string | Lit sqlval

datatype sqlcond = Eq sqlexpr sqlexpr | Ge sqlexpr sqlexpr | IsNull sqlexpr

datatype join_kind = InnerJoin | FullJoin

record select_stmt =
  sel_columns :: "(string \<times> string) list"
  sel_from :: string
  sel_joins :: "(join_kind \<times> string \<times> sqlcond list) list"
  sel_where :: "sqlcond list"

text \<open>
  A row of a join holds one row for each table joined so far; a table that an outer join
  padded is absent from it, and all its columns read \<open>NULL\<close>.
\<close>

type_synonym joined = "(string \<times> sqlrow) list"

definition field :: "sqlrow \<Rightarrow> string \<Rightarrow> sqlval" where
  "field r c = (case map_of r c of None \<Rightarrow> SqlNull | Some v \<Rightarrow> v)"

definition col :: "joined \<Rightarrow> string \<Rightarrow> string \<Rightarrow> sqlval" where
  "col j t c = (case map_of j t of None \<Rightarrow> SqlNull | Some r \<Rightarrow> field r c)"

fun eval_expr :: "joined \<Rightarrow> sqlexpr \<Rightarrow> sqlval" where
  "eval_expr j (Col t c) = col j t c"
| "eval_expr j (Lit v) = v"

fun sql_ge :: "sqlval \<Rightarrow> sqlval \<Rightarrow> bool option" where
  "sql_ge (SqlInt a) (SqlInt b) = Some (b \<le> a)"
| "sql_ge _ _ = None"

text \<open>
  SQL's three truth values: \<open>None\<close> is unknown, the value of a comparison with \<open>NULL\<close>.
  A row passes \<open>ON\<close> or \<open>WHERE\<close> when every conjunct is true.
\<close>

fun eval_cond :: "joined \<Rightarrow> sqlcond \<Rightarrow> bool option" where
  "eval_cond j (Eq a b) =
     (if eval_expr j a = SqlNull \<or> eval_expr j b = SqlNull then None
      else Some (eval_expr j a = eval_expr j b))"
| "eval_cond j (Ge a b) = sql_ge (eval_expr j a) (eval_expr j b)"
| "eval_cond j (IsNull a) = Some (eval_expr j a = SqlNull)"

definition holds :: "sqlcond list \<Rightarrow> joined \<Rightarrow> bool" where
  "holds cs j = list_all (\<lambda>c. eval_cond j c = Some True) cs"

definition inner_join :: "joined list \<Rightarrow> string \<Rightarrow> sqlrow list \<Rightarrow> sqlcond list \<Rightarrow> joined list" where
  "inner_join js t rs on =
     concat (map (\<lambda>j. map (\<lambda>r. j @ [(t, r)]) (filter (\<lambda>r. holds on (j @ [(t, r)])) rs)) js)"

text \<open>
  \<open>FULL JOIN\<close>: the matching pairs, then the rows of the left side with no match, then
  the rows of the right side with no match, each padded with \<open>NULL\<close>.
\<close>

definition full_join :: "joined list \<Rightarrow> string \<Rightarrow> sqlrow list \<Rightarrow> sqlcond list \<Rightarrow> joined list" where
  "full_join js t rs on =
     inner_join js t rs on
     @ filter (\<lambda>j. list_all (\<lambda>r. \<not> holds on (j @ [(t, r)])) rs) js
     @ map (\<lambda>r. [(t, r)]) (filter (\<lambda>r. list_all (\<lambda>j. \<not> holds on (j @ [(t, r)])) js) rs)"

definition table_rows :: "(string \<times> sqltable) list \<Rightarrow> string \<Rightarrow> sqlrow list" where
  "table_rows db t = (case map_of db t of None \<Rightarrow> [] | Some tb \<Rightarrow> tbl_rows tb)"

fun apply_join :: "(string \<times> sqltable) list \<Rightarrow> joined list \<Rightarrow> join_kind \<times> string \<times> sqlcond list \<Rightarrow> joined list" where
  "apply_join db js (InnerJoin, t, on) = inner_join js t (table_rows db t) on"
| "apply_join db js (FullJoin, t, on) = full_join js t (table_rows db t) on"

text \<open>
  The database resolves every column a statement names before it reads a row: a column
  its table does not have makes the statement fail, whatever the rows are.
\<close>

fun expr_columns :: "sqlexpr \<Rightarrow> (string \<times> string) list" where
  "expr_columns (Col t c) = [(t, c)]"
| "expr_columns (Lit v) = []"

fun cond_columns :: "sqlcond \<Rightarrow> (string \<times> string) list" where
  "cond_columns (Eq a b) = expr_columns a @ expr_columns b"
| "cond_columns (Ge a b) = expr_columns a @ expr_columns b"
| "cond_columns (IsNull a) = expr_columns a"

definition stmt_columns :: "select_stmt \<Rightarrow> (string \<times> string) list" where
  "stmt_columns q =
     sel_columns q
     @ concat (map (\<lambda>(k, t, on). concat (map cond_columns on)) (sel_joins q))
     @ concat (map cond_columns (sel_where q))"

definition known_column :: "(string \<times> sqltable) list \<Rightarrow> string \<times> string \<Rightarrow> bool" where
  "known_column db tc = (case map_of db (fst tc) of None \<Rightarrow> False | Some tb \<Rightarrow> snd tc \<in> set (tbl_columns tb))"

definition run_select :: "(string \<times> sqltable) list \<Rightarrow> select_stmt \<Rightarrow> sql_error + sqlval list list" where
  "run_select db q =
     (case filter (\<lambda>tc. \<not> known_column db tc) (stmt_columns q) of
        (t, c) # _ \<Rightarrow> Inl (ErrUnknownColumn t c)
      | [] \<Rightarrow>
          Inr (map (\<lambda>j. map (\<lambda>(t, c). col j t c) (sel_columns q))
                 (filter (holds (sel_where q))
                    (foldl (apply_join db) (map (\<lambda>r. [(sel_from q, r)]) (table_rows db (sel_from q))) (sel_joins q)))))"

text \<open>
  Both methods run their statement with \<open>Exec\<close>, not with \<open>Select\<close>. \<open>Exec\<close> gives an
  \<open>sql.Result\<close>, which can tell the last inserted id and the number of rows affected
  (both depend on the driver) and holds no row, or the error of the statement.
\<close>

datatype sql_Result = sql_Result

definition Exec :: "(string \<times> sqltable) list \<Rightarrow> select_stmt \<Rightarrow> sql_error + sql_Result" where
  "Exec db q = (case run_select db q of Inl err \<Rightarrow> Inl err | Inr rs \<Rightarrow> Inr sql_Result)"

subsection \<open>The reconciliation queries\<close>

definition PendingAutoAddTeamMemberships_sql :: "int \<Rightarrow> select_stmt" where
  "PendingAutoAddTeamMemberships_sql MinGroupMembersCreateAt =
     \<lparr>sel_columns = [(''GroupMembers'', ''UserId''), (''GroupTeams'', ''SyncableId'')],
      sel_from = ''GroupMembers'',
      sel_joins =
        [(InnerJoin, ''GroupTeams'', [Eq (Col ''GroupTeams'' ''GroupId'') (Col ''GroupMembers'' ''GroupId'')]),
         (InnerJoin, ''Groups'', [Eq (Col ''Groups'' ''Id'') (Col ''GroupMembers'' ''GroupId'')]),
         (FullJoin, ''TeamMembers'',
            [Eq (Col ''TeamMembers'' ''SyncableId'') (Col ''GroupTeams'' ''SyncableId''),
             Eq (Col ''TeamMembers'' ''UserId'') (Col ''GroupMembers'' ''UserId'')])],
      sel_where =
        [IsNull (Col ''TeamMembers'' ''UserId''),
         Eq (Col ''Groups'' ''DeleteAt'') (Lit (SqlInt 0)),
         Eq (Col ''GroupTeams'' ''DeleteAt'') (Lit (SqlInt 0)),
         Eq (Col ''GroupTeams'' ''AutoAdd'') (Lit (SqlBool True)),
         Eq (Col ''GroupMembers'' ''DeleteAt'') (Lit (SqlInt 0)),
         Ge (Col ''GroupMembers'' ''CreateAt'') (Lit (SqlInt MinGroupMembersCreateAt))]\<rparr>"

text \<open>
  When \<open>Exec\<close> fails the method sets \<open>Err\<close> and stores the \<open>nil\<close> result in \<open>Data\<close>.
\<close>

definition PendingAutoAddTeamMemberships ::
  "store \<Rightarrow> ext_tables \<Rightarrow> int \<Rightarrow> sql_Result LayeredStoreSupplierResult" where
  "PendingAutoAddTeamMemberships st ext minGroupMembersCreateAt =
     (case Exec (database st ext) (PendingAutoAddTeamMemberships_sql minGroupMembersCreateAt) of
        Inl err \<Rightarrow> error_result ''SqlGroupStore.PendingAutoAddTeamMemberships'' ''store.sql_group.select_error'' StatusInternalServerError
      | Inr sqlResult \<Rightarrow> \<lparr>Data = Some sqlResult, Err = None\<rparr>)"

definition PendingAutoAddChannelMemberships_sql :: "int \<Rightarrow> select_stmt" where
  "PendingAutoAddChannelMemberships_sql MinGroupMembersCreateAt =
     \<lparr>sel_columns = [(''GroupMembers'', ''UserId''), (''GroupChannels'', ''ChannelId'')],
      sel_from = ''GroupMembers'',
      sel_joins =
        [(InnerJoin, ''GroupChannels'', [Eq (Col ''GroupChannels'' ''GroupId'') (Col ''GroupMembers'' ''GroupId'')]),
         (InnerJoin, ''Groups'', [Eq (Col ''Groups'' ''Id'') (Col ''GroupMembers'' ''GroupId'')]),
         (InnerJoin, ''Channels'', [Eq (Col ''Channels'' ''Id'') (Col ''GroupChannels'' ''ChannelId'')]),
         (InnerJoin, ''Teams'', [Eq (Col ''Teams'' ''Id'') (Col ''Channels'' ''SyncableId'')]),
         (InnerJoin, ''TeamMembers'',
            [Eq (Col ''TeamMembers'' ''SyncableId'') (Col ''Teams'' ''Id''),
             Eq (Col ''TeamMembers'' ''UserId'') (Col ''GroupMembers'' ''UserId'')]),
         (FullJoin, ''ChannelMemberHistory'',
            [Eq (Col ''ChannelMemberHistory'' ''ChannelId'') (Col ''GroupChannels'' ''ChannelId''),
             Eq (Col ''ChannelMemberHistory'' ''UserId'') (Col ''GroupMembers'' ''UserId'')])],
      sel_where =
        [IsNull (Col ''ChannelMemberHistory'' ''UserId''),
         IsNull (Col ''ChannelMemberHistory'' ''LeaveTime''),
         Eq (Col ''Groups'' ''DeleteAt'') (Lit (SqlInt 0)),
         Eq (Col ''GroupChannels'' ''DeleteAt'') (Lit (SqlInt 0)),
         Eq (Col ''GroupChannels'' ''AutoAdd'') (Lit (SqlBool True)),
         Eq (Col ''GroupMembers'' ''DeleteAt'') (Lit (SqlInt 0)),
         Ge (Col ''GroupMembers'' ''CreateAt'') (Lit (SqlInt MinGroupMembersCreateAt))]\<rparr>"

definition PendingAutoAddChannelMemberships ::
  "store \<Rightarrow> ext_tables \<Rightarrow> int \<Rightarrow> sql_Result LayeredStoreSupplierResult" where
  "PendingAutoAddChannelMemberships st ext minGroupMembersCreateAt =
     (case Exec (database st ext) (PendingAutoAddChannelMemberships_sql minGroupMembersCreateAt) of
        Inl err \<Rightarrow> error_result ''SqlGroupStore.PendingAutoAddChannelMemberships'' ''store.sql_group.select_error'' StatusInternalServerError
      | Inr sqlResult \<Rightarrow> \<lparr>Data = Some sqlResult, Err = None\<rparr>)"

subsection \<open>Keys and time stamps of the stored rows\<close>

text \<open>
  The primary key of \<open>GroupTeams\<close> and \<open>GroupChannels\<close> (\<open>SetKeys(false, "GroupId",
  "SyncableId")\<close>), and the columns an update must keep, listed row by row.
\<close>

definition syncable_key :: "SyncableRow \<Rightarrow> string \<times> string" where
  "syncable_key r = (row_GroupId r, row_FkId r)"

definition group_stamps :: "Group list \<Rightarrow> (string \<times> int \<times> int) list" where
  "group_stamps rows = map (\<lambda>r. (g_Id r, g_CreateAt r, g_DeleteAt r)) rows"

definition syncable_stamps :: "SyncableRow list \<Rightarrow> (string \<times> string \<times> int \<times> int) list" where
  "syncable_stamps rows = map (\<lambda>r. (row_GroupId r, row_FkId r, row_CreateAt r, row_DeleteAt r)) rows"

subsection \<open>A store to run the operations on\<close>

text \<open>
  Identifiers of 26 characters, and an instance of the checks of package \<open>model\<close> that
  accepts exactly those. The store holds one group, one member of it, a link of the group
  to a team and to a channel, and a link of another group to another team; the second
  store holds the same group, member and team link after each was soft-deleted at time
  1500, and a live link of the group to the second team.
\<close>

definition ex_G :: string where "ex_G = ''g0000000000000000000000001''"
definition ex_G2 :: string where "ex_G2 = ''g0000000000000000000000002''"
definition ex_U1 :: string where "ex_U1 = ''u0000000000000000000000001''"
definition ex_T :: string where "ex_T = ''t0000000000000000000000001''"
definition ex_T2 :: string where "ex_T2 = ''t0000000000000000000000002''"
definition ex_C :: string where "ex_C = ''c0000000000000000000000001''"

definition ex_env :: model_env where
  "ex_env =
     \<lparr>IsValidId = (\<lambda>s. length s = 26),
      Group_IsValidForUpdate =
        (\<lambda>g. if length (g_Id g) = 26 \<and> g_Name g \<noteq> [] then None
              else Some (NewAppError ''Group.IsValidForUpdate'' ''model.group.invalid'' StatusBadRequest)),
      GroupMember_IsValid =
        (\<lambda>m. if length (gm_GroupId m) = 26 \<and> length (gm_UserId m) = 26 then None
              else Some (NewAppError ''GroupMember.IsValid'' ''model.group_member.invalid'' StatusBadRequest)),
      GroupSyncable_IsValid =
        (\<lambda>s. if length (gs_GroupId s) = 26 \<and> length (gs_SyncableId s) = 26 then None
              else Some (NewAppError ''GroupSyncable.IsValid'' ''model.group_syncable.invalid'' StatusBadRequest)),
      GroupSyncableType_zero = GSTeam\<rparr>"

definition ex_group :: Group where
  "ex_group = \<lparr>g_Id = ex_G, g_Name = ''eng'', g_DisplayName = ''Engineering'', g_Description = [],
                g_Type = ''ldap'', g_RemoteId = ''cn=eng'', g_CreateAt = 800, g_UpdateAt = 800, g_DeleteAt = 0\<rparr>"

definition ex_member :: GroupMember where
  "ex_member = \<lparr>gm_GroupId = ex_G, gm_UserId = ex_U1, gm_CreateAt = 1000, gm_DeleteAt = 0\<rparr>"

definition ex_team_link :: SyncableRow where
  "ex_team_link = \<lparr>row_GroupId = ex_G, row_FkId = ex_T, row_CanLeave = True, row_AutoAdd = True,
                    row_CreateAt = 900, row_UpdateAt = 900, row_DeleteAt = 0\<rparr>"

definition ex_other_team_link :: SyncableRow where
  "ex_other_team_link = \<lparr>row_GroupId = ex_G2, row_FkId = ex_T2, row_CanLeave = False, row_AutoAdd = True,
                          row_CreateAt = 950, row_UpdateAt = 950, row_DeleteAt = 0\<rparr>"

definition ex_channel_link :: SyncableRow where
  "ex_channel_link = \<lparr>row_GroupId = ex_G, row_FkId = ex_C, row_CanLeave = True, row_AutoAdd = True,
                       row_CreateAt = 900, row_UpdateAt = 900, row_DeleteAt = 0\<rparr>"

definition ex_store :: store where
  "ex_store = \<lparr>Groups = [ex_group], GroupMembers = [ex_member],
               GroupTeams = [ex_team_link, ex_other_team_link], GroupChannels = [ex_channel_link]\<rparr>"

definition ex_removed_store :: store where
  "ex_removed_store =
     \<lparr>Groups = [ex_group\<lparr>g_UpdateAt := 1500, g_DeleteAt := 1500\<rparr>],
      GroupMembers = [ex_member\<lparr>gm_DeleteAt := 1500\<rparr>],
      GroupTeams = [ex_team_link\<lparr>row_UpdateAt := 1500, row_DeleteAt := 1500\<rparr>,
                    \<lparr>row_GroupId = ex_G, row_FkId = ex_T2, row_CanLeave = True, row_AutoAdd = False,
                     row_CreateAt = 950, row_UpdateAt = 950, row_DeleteAt = 0\<rparr>],
      GroupChannels = []\<rparr>"

text \<open>
  Tables of the team and channel stores. Their key of a team is the column \<open>TeamId\<close>,
  the name this file gives to its own team column when it renames \<open>SyncableId\<close>, which is
  a field of \<open>model.GroupSyncable\<close> and no column of any table. The user is a member of
  the team, the channel belongs to the team, and nobody has a history in the channel.
\<close>

definition ex_ext :: ext_tables where
  "ex_ext =
     \<lparr>TeamMembers = \<lparr>tbl_columns = [''TeamId'', ''UserId''],
                     tbl_rows = [[(''TeamId'', SqlStr ex_T), (''UserId'', SqlStr ex_U1)]]\<rparr>,
      Channels = \<lparr>tbl_columns = [''Id'', ''TeamId''],
                  tbl_rows = [[(''Id'', SqlStr ex_C), (''TeamId'', SqlStr ex_T)]]\<rparr>,
      Teams = \<lparr>tbl_columns = [''Id''], tbl_rows = [[(''Id'', SqlStr ex_T)]]\<rparr>,
      ChannelMemberHistory = \<lparr>tbl_columns = [''ChannelId'', ''UserId'', ''JoinTime'', ''LeaveTime''], tbl_rows = []\<rparr>\<rparr>"

text \<open>
  What a caller sends to the two updates: the link of the group to the team with
  \<open>AutoAdd\<close> switched off, and the group under a new display name; both carry time stamps
  of the caller's own.
\<close>

definition ex_update_link :: GroupSyncable where
  "ex_update_link = \<lparr>gs_GroupId = ex_G, gs_SyncableId = ex_T, gs_CanLeave = True, gs_AutoAdd = False,
                      gs_CreateAt = 1, gs_UpdateAt = 2, gs_DeleteAt = 3, gs_Type = GSTeam\<rparr>"

definition ex_update_group :: Group where
  "ex_update_group = ex_group\<lparr>g_DisplayName := ''Platform'', g_CreateAt := 1, g_DeleteAt := 7\<rparr>"

lemmas ex_defs = ex_G_def ex_G2_def ex_U1_def ex_T_def ex_T2_def ex_C_def ex_env_def ex_group_def
  ex_member_def ex_team_link_def ex_other_team_link_def ex_channel_link_def ex_store_def
  ex_removed_store_def ex_ext_def

section \<open>Lemmas about the statements\<close>

lemma SelectOne_Inr_iff: "SelectOne xs = Inr x \<longleftrightarrow> xs = [x]"
  by (cases xs rule: SelectOne.cases) auto

lemma filter_key_single:
  "distinct (map f xs) \<Longrightarrow> x \<in> set xs \<Longrightarrow> filter (\<lambda>r. f r = f x) xs = [x]"
proof (induction xs)
  case Nil
  then show ?case by simp
next
  case (Cons a xs)
  show ?case
  proof (cases "a = x")
    case True
    with Cons.prems have "\<forall>r \<in> set xs. f r \<noteq> f x" by (auto simp: image_iff)
    then have "filter (\<lambda>r. f r = f x) xs = []" by (simp add: filter_empty_conv)
    with True show ?thesis by simp
  next
    case False
    with Cons.prems have "x \<in> set xs" "f a \<noteq> f x" by (auto simp: image_iff)
    with Cons show ?thesis by simp
  qed
qed

lemma filter_single_eq:
  assumes "filter P rows = [x]" and "r \<in> set rows" and "P r"
  shows "r = x"
proof -
  from assms(2,3) have "r \<in> set (filter P rows)" by simp
  with assms(1) show ?thesis by simp
qed

lemma filter_single_mem:
  assumes "filter P rows = [x]"
  shows "x \<in> set rows \<and> P x"
proof -
  from assms have "x \<in> set (filter P rows)" by simp
  then show ?thesis by simp
qed

lemma filter_map_same_key:
  assumes "\<And>x. k (f x) = k x"
  shows "filter (\<lambda>x. k x = i) (map f xs) = map f (filter (\<lambda>x. k x = i) xs)"
  by (induction xs) (simp_all add: assms)

lemma Err_error_result [simp]: "Err (error_result w i s) = Some (NewAppError w i s)"
  by (simp add: error_result_def)

lemma Data_error_result [simp]: "Data (error_result w i s) = None"
  by (simp add: error_result_def)

lemma syncable_table_set [simp]:
  "syncable_table t (set_syncable_table t rows st) = rows"
  by (cases t) simp_all

lemma syncable_table_set_other:
  "t \<noteq> t' \<Longrightarrow> syncable_table t' (set_syncable_table t rows st) = syncable_table t' st"
  by (cases t; cases t') simp_all

lemma set_syncable_table_frame [simp]:
  "Groups (set_syncable_table t rows st) = Groups st"
  "GroupMembers (set_syncable_table t rows st) = GroupMembers st"
  by (cases t; simp)+

section \<open>Lemmas about the operations\<close>

text \<open>A row of a table whose keys are distinct is the one row its key selects.\<close>

lemma group_select_stored:
  "distinct (map g_Id (Groups st)) \<Longrightarrow> g \<in> set (Groups st) \<Longrightarrow>
   SelectOne (filter (\<lambda>x. g_Id x = g_Id g) (Groups st)) = Inr g"
  by (simp add: filter_key_single [where f = g_Id])

lemma member_select_stored:
  "distinct (map member_key (GroupMembers st)) \<Longrightarrow> m \<in> set (GroupMembers st) \<Longrightarrow>
   SelectOne (filter (\<lambda>r. gm_GroupId r = gm_GroupId m \<and> gm_UserId r = gm_UserId m) (GroupMembers st)) = Inr m"
  using filter_key_single [where f = member_key and x = m and xs = "GroupMembers st"]
  by (simp add: member_key_def)

lemma syncable_select_stored:
  "distinct (map syncable_key (syncable_table t st)) \<Longrightarrow> r \<in> set (syncable_table t st) \<Longrightarrow>
   SelectOne (syncable_key_rows t st (row_GroupId r) (row_FkId r)) = Inr r"
  using filter_key_single [where f = syncable_key and x = r and xs = "syncable_table t st"]
  by (simp add: syncable_key_def syncable_key_rows_def)

lemma GroupDelete_already_deleted:
  "SelectOne (filter (\<lambda>x. g_Id x = groupID) (Groups st)) = Inr g \<Longrightarrow> g_DeleteAt g \<noteq> 0 \<Longrightarrow>
   GroupDelete M t st groupID =
     (error_result ''SqlGroupStore.Delete'' ''store.sql_group.delete.already_deleted'' StatusInternalServerError, st)"
  by (simp add: GroupDelete_def error_result_def NewSupplierResult_def Let_def)

lemma GroupDeleteMember_already_deleted:
  "SelectOne (filter (\<lambda>r. gm_GroupId r = groupID \<and> gm_UserId r = userID) (GroupMembers st)) = Inr m \<Longrightarrow>
   gm_DeleteAt m \<noteq> 0 \<Longrightarrow> IsValidId M groupID \<Longrightarrow> IsValidId M userID \<Longrightarrow>
   GroupDeleteMember M t st groupID userID =
     (error_result ''SqlGroupStore.DeleteMember'' ''store.sql_group.delete_member.already_deleted'' StatusInternalServerError, st)"
  by (simp add: GroupDeleteMember_def)

lemma GroupDeleteGroupSyncable_already_deleted:
  "SelectOne (syncable_key_rows ty st groupID syncableID) = Inr r \<Longrightarrow>
   row_DeleteAt r \<noteq> 0 \<Longrightarrow> IsValidId M groupID \<Longrightarrow> IsValidId M syncableID \<Longrightarrow>
   GroupDeleteGroupSyncable M t st groupID syncableID ty =
     (error_result ''SqlGroupStore.DeleteGroupSyncable'' ''store.sql_group.delete_group_syncable.already_deleted'' StatusBadRequest, st)"
  by (simp add: GroupDeleteGroupSyncable_def scan_GroupSyncable_def)

lemma member_update_keys:
  "map member_key (snd (gorp_Update_GroupMembers rows m)) = map member_key rows"
  by (induction rows) (auto simp: gorp_Update_GroupMembers_def)

lemma GroupDeleteMember_success_key:
  assumes "GroupDeleteMember M t st groupID userID = (res, st')" and "Err res = None"
  shows "IsValidId M groupID \<and> IsValidId M userID \<and> (groupID, userID) \<in> set (map member_key (GroupMembers st'))"
proof -
  from assms have v: "IsValidId M groupID" "IsValidId M userID"
    by (auto simp: GroupDeleteMember_def error_result_def split: if_splits)
  from assms v obtain m where
    sel: "SelectOne (filter (\<lambda>r. gm_GroupId r = groupID \<and> gm_UserId r = userID) (GroupMembers st)) = Inr m"
    by (auto simp: GroupDeleteMember_def error_result_def split: if_splits sum.splits)
  then have "filter (\<lambda>r. gm_GroupId r = groupID \<and> gm_UserId r = userID) (GroupMembers st) = [m]"
    by (simp add: SelectOne_Inr_iff)
  then have "m \<in> set (filter (\<lambda>r. gm_GroupId r = groupID \<and> gm_UserId r = userID) (GroupMembers st))"
    by simp
  then have k: "(groupID, userID) \<in> set (map member_key (GroupMembers st))"
    by (auto simp: member_key_def image_iff)
  from assms v sel have "GroupMembers st' = snd (gorp_Update_GroupMembers (GroupMembers st) (m\<lparr>gm_DeleteAt := t\<rparr>))"
    by (auto simp: GroupDeleteMember_def error_result_def Let_def split: if_splits prod.splits)
  with k v show ?thesis by (simp add: member_update_keys)
qed

text \<open>What a successful update has read, returned and written.\<close>

lemma GroupUpdate_success:
  assumes "GroupUpdate M now st grp = (res, st')" and "Err res = None"
  shows "\<exists>retrieved.
    filter (\<lambda>g. g_Id g = g_Id grp) (Groups st) = [retrieved] \<and>
    res = \<lparr>Data = Some (grp\<lparr>g_DeleteAt := g_DeleteAt retrieved, g_CreateAt := g_CreateAt retrieved, g_UpdateAt := now\<rparr>), Err = None\<rparr> \<and>
    st' = st\<lparr>Groups := map (\<lambda>r. if g_Id r = g_Id grp
         then grp\<lparr>g_DeleteAt := g_DeleteAt retrieved, g_CreateAt := g_CreateAt retrieved, g_UpdateAt := now\<rparr> else r) (Groups st)\<rparr>"
proof (cases "SelectOne (filter (\<lambda>g. g_Id g = g_Id grp) (Groups st))")
  case (Inl err)
  with assms show ?thesis
    by (cases "err = ErrNoRows") (auto simp: GroupUpdate_def)
next
  case (Inr retrieved)
  let ?g = "grp\<lparr>g_DeleteAt := g_DeleteAt retrieved, g_CreateAt := g_CreateAt retrieved, g_UpdateAt := now\<rparr>"
  from Inr have f: "filter (\<lambda>g. g_Id g = g_Id grp) (Groups st) = [retrieved]"
    by (simp add: SelectOne_Inr_iff)
  show ?thesis
  proof (cases "Group_IsValidForUpdate M ?g")
    case (Some e)
    with assms Inr show ?thesis by (auto simp: GroupUpdate_def)
  next
    case None
    show ?thesis
    proof (cases "gorp_Update_Groups (Groups st) ?g")
      case (Inl e)
      with assms Inr None show ?thesis by (auto simp: GroupUpdate_def)
    next
      case (Inr p)
      then have p: "p = (length (filter (\<lambda>r. g_Id r = g_Id grp) (Groups st)),
                map (\<lambda>r. if g_Id r = g_Id grp then ?g else r) (Groups st))"
        by (auto simp: gorp_Update_Groups_def split: if_splits)
      from assms \<open>SelectOne _ = Inr retrieved\<close> None Inr p f show ?thesis
        by (auto simp: GroupUpdate_def Let_def split: if_splits)
    qed
  qed
qed


lemma GroupUpdateGroupSyncable_success:
  assumes "GroupUpdateGroupSyncable M now st gs = (res, st')" and "Err res = None"
  shows "\<exists>r.
    syncable_key_rows (gs_Type gs) st (gs_GroupId gs) (gs_SyncableId gs) = [r] \<and>
    GroupSyncable_IsValid M gs = None \<and>
    \<not> (row_AutoAdd r = gs_AutoAdd gs \<and> row_CanLeave r = gs_CanLeave gs) \<and>
    res = \<lparr>Data = Some (gs\<lparr>gs_DeleteAt := row_DeleteAt r, gs_CreateAt := row_CreateAt r, gs_UpdateAt := now\<rparr>), Err = None\<rparr> \<and>
    st' = set_syncable_table (gs_Type gs)
             (update_all_syncables (syncable_table (gs_Type gs) st) (gs_CanLeave gs) (gs_AutoAdd gs) now) st"
proof (cases "SelectOne (syncable_key_rows (gs_Type gs) st (gs_GroupId gs) (gs_SyncableId gs))")
  case (Inl err)
  with assms show ?thesis
    by (cases "err = ErrNoRows") (auto simp: GroupUpdateGroupSyncable_def)
next
  case (Inr r)
  then have f: "syncable_key_rows (gs_Type gs) st (gs_GroupId gs) (gs_SyncableId gs) = [r]"
    by (simp add: SelectOne_Inr_iff)
  show ?thesis
  proof (cases "GroupSyncable_IsValid M gs")
    case (Some e)
    with assms Inr show ?thesis by (auto simp: GroupUpdateGroupSyncable_def)
  next
    case None
    show ?thesis
    proof (cases "row_AutoAdd r = gs_AutoAdd gs \<and> row_CanLeave r = gs_CanLeave gs")
      case True
      with assms Inr None show ?thesis
        by (auto simp: GroupUpdateGroupSyncable_def scan_GroupSyncable_def)
    next
      case False
      with assms Inr None f show ?thesis
        by (auto simp: GroupUpdateGroupSyncable_def scan_GroupSyncable_def Let_def)
    qed
  qed
qed

lemma update_all_syncables_stamps:
  "syncable_stamps (update_all_syncables rows c a u) = syncable_stamps rows"
  by (simp add: syncable_stamps_def update_all_syncables_def)

lemma group_update_stamps:
  assumes "filter (\<lambda>g. g_Id g = i) rows = [retrieved]"
    and "g_Id u = i" and "g_CreateAt u = g_CreateAt retrieved" and "g_DeleteAt u = g_DeleteAt retrieved"
  shows "group_stamps (map (\<lambda>r. if g_Id r = i then u else r) rows) = group_stamps rows"
  unfolding group_stamps_def map_map
proof (rule map_cong [OF refl])
  fix r assume "r \<in> set rows"
  show "((\<lambda>r. (g_Id r, g_CreateAt r, g_DeleteAt r)) \<circ> (\<lambda>r. if g_Id r = i then u else r)) r
        = (g_Id r, g_CreateAt r, g_DeleteAt r)"
  proof (cases "g_Id r = i")
    case True
    with filter_single_eq [OF assms(1) \<open>r \<in> set rows\<close>] have "r = retrieved" by simp
    with True assms(2-4) show ?thesis by simp
  next
    case False
    then show ?thesis by simp
  qed
qed

lemma GroupUpdate_stored:
  assumes "g \<in> set (Groups st)" and "distinct (map g_Id (Groups st))" and "g_Id grp = g_Id g"
    and "Group_IsValidForUpdate M (grp\<lparr>g_DeleteAt := g_DeleteAt g, g_CreateAt := g_CreateAt g, g_UpdateAt := now\<rparr>) = None"
    and "\<forall>r \<in> set (Groups st). g_Id r \<noteq> g_Id grp \<longrightarrow> g_Name r \<noteq> g_Name grp"
  shows "GroupUpdate M now st grp =
     (\<lparr>Data = Some (grp\<lparr>g_DeleteAt := g_DeleteAt g, g_CreateAt := g_CreateAt g, g_UpdateAt := now\<rparr>), Err = None\<rparr>,
      st\<lparr>Groups := map (\<lambda>r. if g_Id r = g_Id grp
            then grp\<lparr>g_DeleteAt := g_DeleteAt g, g_CreateAt := g_CreateAt g, g_UpdateAt := now\<rparr> else r) (Groups st)\<rparr>)"
proof -
  let ?g = "grp\<lparr>g_DeleteAt := g_DeleteAt g, g_CreateAt := g_CreateAt g, g_UpdateAt := now\<rparr>"
  from filter_key_single [where f = g_Id, OF assms(2,1)] assms(3)
  have f: "filter (\<lambda>x. g_Id x = g_Id grp) (Groups st) = [g]" by simp
  from assms(5) have "gorp_Update_Groups (Groups st) ?g =
      Inr (length (filter (\<lambda>r. g_Id r = g_Id grp) (Groups st)),
           map (\<lambda>r. if g_Id r = g_Id grp then ?g else r) (Groups st))"
    by (auto simp: gorp_Update_Groups_def)
  with f assms(4) show ?thesis
    by (simp add: GroupUpdate_def Let_def)
qed

lemma GroupUpdateGroupSyncable_stored:
  assumes "r \<in> set (syncable_table (gs_Type gs) st)"
    and "distinct (map syncable_key (syncable_table (gs_Type gs) st))"
    and "row_GroupId r = gs_GroupId gs" and "row_FkId r = gs_SyncableId gs"
    and "gs_AutoAdd gs \<noteq> row_AutoAdd r \<or> gs_CanLeave gs \<noteq> row_CanLeave r"
    and "GroupSyncable_IsValid M gs = None"
  shows "GroupUpdateGroupSyncable M now st gs =
     (\<lparr>Data = Some (gs\<lparr>gs_DeleteAt := row_DeleteAt r, gs_CreateAt := row_CreateAt r, gs_UpdateAt := now\<rparr>), Err = None\<rparr>,
      set_syncable_table (gs_Type gs)
        (update_all_syncables (syncable_table (gs_Type gs) st) (gs_CanLeave gs) (gs_AutoAdd gs) now) st)"
proof -
  from syncable_select_stored [OF assms(2,1)] assms(3,4)
  have sel: "SelectOne (syncable_key_rows (gs_Type gs) st (gs_GroupId gs) (gs_SyncableId gs)) = Inr r"
    by simp
  from assms(5) have "\<not> (row_AutoAdd r = gs_AutoAdd gs \<and> row_CanLeave r = gs_CanLeave gs)" by auto
  with sel assms(6) show ?thesis
    by (auto simp: GroupUpdateGroupSyncable_def scan_GroupSyncable_def Let_def)
qed

text \<open>
  What \<open>GroupGetGroupSyncable\<close> returns: nothing and no error when no row has the key,
  and otherwise an entity under the id that was queried.
\<close>

lemma GroupGetGroupSyncable_absent_or_queried_id:
  "(syncable_key_rows ty st groupID syncableID = [] \<longrightarrow>
      GroupGetGroupSyncable M st groupID syncableID ty = \<lparr>Data = None, Err = None\<rparr>)
   \<and> (\<forall>gs. Data (GroupGetGroupSyncable M st groupID syncableID ty) = Some gs \<longrightarrow> gs_SyncableId gs = syncableID)
   \<and> (r \<in> set (syncable_table ty st) \<and> distinct (map syncable_key (syncable_table ty st)) \<longrightarrow>
        (\<exists>gs. GroupGetGroupSyncable M st (row_GroupId r) (row_FkId r) ty = \<lparr>Data = Some gs, Err = None\<rparr> \<and>
              gs_SyncableId gs = row_FkId r \<and> gs_GroupId gs = row_GroupId r))"
proof (intro conjI impI allI)
  assume "syncable_key_rows ty st groupID syncableID = []"
  then show "GroupGetGroupSyncable M st groupID syncableID ty = \<lparr>Data = None, Err = None\<rparr>"
    by (simp add: GroupGetGroupSyncable_def)
next
  fix gs assume a: "Data (GroupGetGroupSyncable M st groupID syncableID ty) = Some gs"
  show "gs_SyncableId gs = syncableID"
  proof (cases "SelectOne (syncable_key_rows ty st groupID syncableID)")
    case (Inl err)
    with a show ?thesis by (cases "err = ErrNoRows") (simp_all add: GroupGetGroupSyncable_def)
  next
    case (Inr x)
    with a show ?thesis by (auto simp: GroupGetGroupSyncable_def)
  qed
next
  assume "r \<in> set (syncable_table ty st) \<and> distinct (map syncable_key (syncable_table ty st))"
  then have "SelectOne (syncable_key_rows ty st (row_GroupId r) (row_FkId r)) = Inr r"
    by (simp add: syncable_select_stored)
  then show "\<exists>gs. GroupGetGroupSyncable M st (row_GroupId r) (row_FkId r) ty = \<lparr>Data = Some gs, Err = None\<rparr> \<and>
              gs_SyncableId gs = row_FkId r \<and> gs_GroupId gs = row_GroupId r"
    by (simp add: GroupGetGroupSyncable_def scan_GroupSyncable_def)
qed

section \<open>Lemmas about joins\<close>

lemma in_inner_join:
  "j \<in> set (inner_join js t rs on) \<longleftrightarrow> (\<exists>j0 \<in> set js. \<exists>r \<in> set rs. j = j0 @ [(t, r)] \<and> holds on j)"
  by (auto simp: inner_join_def)

lemma in_full_join:
  "j \<in> set (full_join js t rs on) \<longleftrightarrow>
     (\<exists>j0 \<in> set js. \<exists>r \<in> set rs. j = j0 @ [(t, r)] \<and> holds on j)
     \<or> (j \<in> set js \<and> (\<forall>r \<in> set rs. \<not> holds on (j @ [(t, r)])))
     \<or> (\<exists>r \<in> set rs. j = [(t, r)] \<and> (\<forall>j0 \<in> set js. \<not> holds on (j0 @ [(t, r)])))"
  by (auto simp: full_join_def in_inner_join list_all_iff)

lemma table_rows_database:
  "table_rows (database st ext) ''Groups'' = tbl_rows (Groups_table (Groups st))"
  "table_rows (database st ext) ''GroupMembers'' = tbl_rows (GroupMembers_table (GroupMembers st))"
  "table_rows (database st ext) ''GroupTeams'' = tbl_rows (syncable_sqltable GSTeam (GroupTeams st))"
  "table_rows (database st ext) ''GroupChannels'' = tbl_rows (syncable_sqltable GSChannel (GroupChannels st))"
  "table_rows (database st ext) ''TeamMembers'' = tbl_rows (TeamMembers ext)"
  "table_rows (database st ext) ''Channels'' = tbl_rows (Channels ext)"
  "table_rows (database st ext) ''Teams'' = tbl_rows (Teams ext)"
  "table_rows (database st ext) ''ChannelMemberHistory'' = tbl_rows (ChannelMemberHistory ext)"
  by (simp_all add: table_rows_def database_def)

lemma run_select_rows:
  assumes "run_select db q = Inr out"
  shows "out = map (\<lambda>j. map (\<lambda>(t, c). col j t c) (sel_columns q))
                 (filter (holds (sel_where q))
                    (foldl (apply_join db) (map (\<lambda>r. [(sel_from q, r)]) (table_rows db (sel_from q))) (sel_joins q)))"
  using assms by (auto simp: run_select_def split: list.splits)

lemma eval_Eq_True:
  "eval_cond j (Eq a b) = Some True \<longleftrightarrow> eval_expr j a \<noteq> SqlNull \<and> eval_expr j a = eval_expr j b"
  by auto

lemma sql_ge_True: "sql_ge a b = Some True \<longleftrightarrow> (\<exists>x y. a = SqlInt x \<and> b = SqlInt y \<and> y \<le> x)"
  by (cases a; cases b) auto

text \<open>
  What the channel statement selects when the database accepts it, whatever the tables
  of the other stores hold and however their columns are named.
\<close>

lemma channel_statement_rows:
  assumes "run_select (database st ext) (PendingAutoAddChannelMemberships_sql m) = Inr out"
    and "row \<in> set out"
  shows "\<exists>gm \<in> set (GroupMembers st). \<exists>gc \<in> set (GroupChannels st). \<exists>g \<in> set (Groups st).
           \<exists>ch \<in> set (tbl_rows (Channels ext)). \<exists>t \<in> set (tbl_rows (Teams ext)).
           \<exists>tm \<in> set (tbl_rows (TeamMembers ext)).
             row = [SqlStr (gm_UserId gm), SqlStr (row_FkId gc)] \<and>
             row_GroupId gc = gm_GroupId gm \<and> g_Id g = gm_GroupId gm \<and>
             g_DeleteAt g = 0 \<and> row_DeleteAt gc = 0 \<and> row_AutoAdd gc \<and>
             gm_DeleteAt gm = 0 \<and> m \<le> gm_CreateAt gm \<and>
             field ch ''Id'' = SqlStr (row_FkId gc) \<and>
             field t ''Id'' \<noteq> SqlNull \<and> field t ''Id'' = field ch ''SyncableId'' \<and>
             field tm ''SyncableId'' = field t ''Id'' \<and> field tm ''UserId'' = SqlStr (gm_UserId gm) \<and>
             (\<forall>h \<in> set (tbl_rows (ChannelMemberHistory ext)).
                \<not> (field h ''ChannelId'' = SqlStr (row_FkId gc) \<and> field h ''UserId'' = SqlStr (gm_UserId gm)))"
proof -
  let ?db = "database st ext"
  let ?q = "PendingAutoAddChannelMemberships_sql m"
  let ?onH = "[Eq (Col ''ChannelMemberHistory'' ''ChannelId'') (Col ''GroupChannels'' ''ChannelId''),
               Eq (Col ''ChannelMemberHistory'' ''UserId'') (Col ''GroupMembers'' ''UserId'')]"
  let ?J5 = "foldl (apply_join ?db) (map (\<lambda>r. [(''GroupMembers'', r)]) (table_rows ?db ''GroupMembers''))
               (butlast (sel_joins ?q))"
  have joins: "foldl (apply_join ?db) (map (\<lambda>r. [(sel_from ?q, r)]) (table_rows ?db (sel_from ?q))) (sel_joins ?q)
      = full_join ?J5 ''ChannelMemberHistory'' (tbl_rows (ChannelMemberHistory ext)) ?onH"
    by (simp add: PendingAutoAddChannelMemberships_sql_def table_rows_database)
  from run_select_rows [OF assms(1)] assms(2) joins
  obtain j where jin: "j \<in> set (full_join ?J5 ''ChannelMemberHistory'' (tbl_rows (ChannelMemberHistory ext)) ?onH)"
    and w: "holds (sel_where ?q) j"
    and r: "row = map (\<lambda>(t, c). col j t c) (sel_columns ?q)"
    by auto
  from w have w1: "col j ''ChannelMemberHistory'' ''UserId'' = SqlNull"
    and w3: "col j ''Groups'' ''DeleteAt'' = SqlInt 0"
    and w4: "col j ''GroupChannels'' ''DeleteAt'' = SqlInt 0"
    and w5: "col j ''GroupChannels'' ''AutoAdd'' = SqlBool True"
    and w6: "col j ''GroupMembers'' ''DeleteAt'' = SqlInt 0"
    and w7: "\<exists>x. col j ''GroupMembers'' ''CreateAt'' = SqlInt x \<and> m \<le> x"
    by (simp_all add: holds_def PendingAutoAddChannelMemberships_sql_def sql_ge_True eval_Eq_True
        del: eval_cond.simps(1))
  from jin consider
      (matched) j0 h where "j = j0 @ [(''ChannelMemberHistory'', h)]" "holds ?onH j"
    | (left) "j \<in> set ?J5" "\<forall>h \<in> set (tbl_rows (ChannelMemberHistory ext)). \<not> holds ?onH (j @ [(''ChannelMemberHistory'', h)])"
    | (right) h where "j = [(''ChannelMemberHistory'', h)]"
    unfolding in_full_join by blast
  then show ?thesis
  proof cases
    case matched
    from matched(2)
    have "eval_cond j (Eq (Col ''ChannelMemberHistory'' ''UserId'') (Col ''GroupMembers'' ''UserId'')) = Some True"
      by (simp add: holds_def del: eval_cond.simps)
    then have "eval_expr j (Col ''ChannelMemberHistory'' ''UserId'') \<noteq> SqlNull"
      unfolding eval_Eq_True by blast
    with w1 show ?thesis by simp
  next
    case right
    then have "col j ''Groups'' ''DeleteAt'' = SqlNull" by (simp add: col_def)
    with w3 show ?thesis by simp
  next
    case left
    from left(1) obtain gmr gcr gr chr tr tmr where
      j: "j = [(''GroupMembers'', gmr), (''GroupChannels'', gcr), (''Groups'', gr), (''Channels'', chr),
               (''Teams'', tr), (''TeamMembers'', tmr)]"
      and gmr: "gmr \<in> set (tbl_rows (GroupMembers_table (GroupMembers st)))"
      and gcr: "gcr \<in> set (tbl_rows (syncable_sqltable GSChannel (GroupChannels st)))"
      and gr: "gr \<in> set (tbl_rows (Groups_table (Groups st)))"
      and chr: "chr \<in> set (tbl_rows (Channels ext))"
      and tr: "tr \<in> set (tbl_rows (Teams ext))"
      and tmr: "tmr \<in> set (tbl_rows (TeamMembers ext))"
      and on1: "holds [Eq (Col ''GroupChannels'' ''GroupId'') (Col ''GroupMembers'' ''GroupId'')]
                  [(''GroupMembers'', gmr), (''GroupChannels'', gcr)]"
      and on2: "holds [Eq (Col ''Groups'' ''Id'') (Col ''GroupMembers'' ''GroupId'')]
                  [(''GroupMembers'', gmr), (''GroupChannels'', gcr), (''Groups'', gr)]"
      and on3: "holds [Eq (Col ''Channels'' ''Id'') (Col ''GroupChannels'' ''ChannelId'')]
                  [(''GroupMembers'', gmr), (''GroupChannels'', gcr), (''Groups'', gr), (''Channels'', chr)]"
      and on4: "holds [Eq (Col ''Teams'' ''Id'') (Col ''Channels'' ''SyncableId'')]
                  [(''GroupMembers'', gmr), (''GroupChannels'', gcr), (''Groups'', gr), (''Channels'', chr),
                   (''Teams'', tr)]"
      and on5: "holds [Eq (Col ''TeamMembers'' ''SyncableId'') (Col ''Teams'' ''Id''),
                       Eq (Col ''TeamMembers'' ''UserId'') (Col ''GroupMembers'' ''UserId'')] j"
      by (auto simp: PendingAutoAddChannelMemberships_sql_def in_inner_join table_rows_database)
    from gmr obtain gm where gm: "gm \<in> set (GroupMembers st)"
      and gmr_eq: "gmr = [(''GroupId'', SqlStr (gm_GroupId gm)), (''UserId'', SqlStr (gm_UserId gm)),
                            (''CreateAt'', SqlInt (gm_CreateAt gm)), (''DeleteAt'', SqlInt (gm_DeleteAt gm))]"
      by (auto simp: GroupMembers_table_def)
    from gcr obtain gc where gc: "gc \<in> set (GroupChannels st)"
      and gcr_eq: "gcr = [(''GroupId'', SqlStr (row_GroupId gc)), (''ChannelId'', SqlStr (row_FkId gc)),
                            (''CanLeave'', SqlBool (row_CanLeave gc)), (''AutoAdd'', SqlBool (row_AutoAdd gc)),
                            (''CreateAt'', SqlInt (row_CreateAt gc)), (''UpdateAt'', SqlInt (row_UpdateAt gc)),
                            (''DeleteAt'', SqlInt (row_DeleteAt gc))]"
      by (auto simp: syncable_sqltable_def)
    from gr obtain g where g: "g \<in> set (Groups st)"
      and gr_eq: "gr = [(''Id'', SqlStr (g_Id g)), (''Name'', SqlStr (g_Name g)),
                            (''DisplayName'', SqlStr (g_DisplayName g)), (''Description'', SqlStr (g_Description g)),
                            (''Type'', SqlStr (g_Type g)), (''RemoteId'', SqlStr (g_RemoteId g)),
                            (''CreateAt'', SqlInt (g_CreateAt g)), (''UpdateAt'', SqlInt (g_UpdateAt g)),
                            (''DeleteAt'', SqlInt (g_DeleteAt g))]"
      by (auto simp: Groups_table_def)
    have f_gm: "field gmr ''UserId'' = SqlStr (gm_UserId gm)"
      "field gmr ''GroupId'' = SqlStr (gm_GroupId gm)"
      "field gmr ''DeleteAt'' = SqlInt (gm_DeleteAt gm)"
      "field gmr ''CreateAt'' = SqlInt (gm_CreateAt gm)"
      by (simp_all add: gmr_eq field_def)
    have f_gc: "field gcr ''ChannelId'' = SqlStr (row_FkId gc)"
      "field gcr ''GroupId'' = SqlStr (row_GroupId gc)"
      "field gcr ''DeleteAt'' = SqlInt (row_DeleteAt gc)"
      "field gcr ''AutoAdd'' = SqlBool (row_AutoAdd gc)"
      by (simp_all add: gcr_eq field_def)
    have f_g: "field gr ''Id'' = SqlStr (g_Id g)"
      "field gr ''DeleteAt'' = SqlInt (g_DeleteAt g)"
      by (simp_all add: gr_eq field_def)
    have anti: "\<forall>h \<in> set (tbl_rows (ChannelMemberHistory ext)).
                \<not> (field h ''ChannelId'' = SqlStr (row_FkId gc) \<and> field h ''UserId'' = SqlStr (gm_UserId gm))"
    proof
      fix h assume "h \<in> set (tbl_rows (ChannelMemberHistory ext))"
      with left(2) have "\<not> holds ?onH (j @ [(''ChannelMemberHistory'', h)])" by blast
      then show "\<not> (field h ''ChannelId'' = SqlStr (row_FkId gc) \<and> field h ''UserId'' = SqlStr (gm_UserId gm))"
        by (auto simp: holds_def eval_Eq_True j col_def f_gm f_gc simp del: eval_cond.simps(1))
    qed
    from on1 have o1: "row_GroupId gc = gm_GroupId gm"
      by (simp add: holds_def eval_Eq_True col_def f_gm f_gc del: eval_cond.simps(1))
    from on2 have o2: "g_Id g = gm_GroupId gm"
      by (simp add: holds_def eval_Eq_True col_def f_gm f_g del: eval_cond.simps(1))
    from on3 have o3: "field chr ''Id'' = SqlStr (row_FkId gc)"
      by (simp add: holds_def eval_Eq_True col_def f_gc del: eval_cond.simps(1))
    from on4 have o4: "field tr ''Id'' \<noteq> SqlNull" "field tr ''Id'' = field chr ''SyncableId''"
      by (auto simp: holds_def eval_Eq_True col_def simp del: eval_cond.simps(1))
    from on5 have o5: "field tmr ''SyncableId'' = field tr ''Id''" "field tmr ''UserId'' = SqlStr (gm_UserId gm)"
      by (auto simp: holds_def eval_Eq_True j col_def f_gm simp del: eval_cond.simps(1))
    from w3 w4 w5 w6 w7 have ws: "g_DeleteAt g = 0" "row_DeleteAt gc = 0" "row_AutoAdd gc"
      "gm_DeleteAt gm = 0" "m \<le> gm_CreateAt gm"
      by (simp_all add: j col_def f_gm f_gc f_g)
    from r have "row = [SqlStr (gm_UserId gm), SqlStr (row_FkId gc)]"
      by (simp add: PendingAutoAddChannelMemberships_sql_def j col_def f_gm f_gc)
    with gm gc g chr tr tmr o1 o2 o3 o4 o5 ws anti show ?thesis by blast
  qed
qed

section \<open>The claims\<close>

subsection \<open>C1: what an update of a link writes\<close>

text \<open>
  C1 says that \<open>GroupUpdateGroupSyncable\<close> with a changed \<open>AutoAdd\<close> or \<open>CanLeave\<close> writes
  only the row keyed by \<open>(GroupId, SyncableId, Type)\<close> and leaves every other row of both
  tables unchanged. The \<open>UPDATE\<close> it issues has no \<open>WHERE\<close> clause. On the store with the
  links \<open>(ex_G, ex_T)\<close> and \<open>(ex_G2, ex_T2)\<close> in \<open>GroupTeams\<close>, switching \<open>AutoAdd\<close> off for
  the first link at time 5000 succeeds and also overwrites \<open>CanLeave\<close>, \<open>AutoAdd\<close> and
  \<open>UpdateAt\<close> of the second link, which belongs to another group and another team.
\<close>

theorem update_syncable_overwrites_other_links:
  "GroupUpdateGroupSyncable ex_env 5000 ex_store ex_update_link =
     (\<lparr>Data = Some (ex_update_link\<lparr>gs_DeleteAt := 0, gs_CreateAt := 900, gs_UpdateAt := 5000\<rparr>), Err = None\<rparr>,
      ex_store\<lparr>GroupTeams :=
        [ex_team_link\<lparr>row_AutoAdd := False, row_UpdateAt := 5000\<rparr>,
         ex_other_team_link\<lparr>row_CanLeave := True, row_AutoAdd := False, row_UpdateAt := 5000\<rparr>]\<rparr>)
   \<and> ex_other_team_link\<lparr>row_CanLeave := True, row_AutoAdd := False, row_UpdateAt := 5000\<rparr> \<noteq> ex_other_team_link"
  by (simp add: GroupUpdateGroupSyncable_def syncable_key_rows_def scan_GroupSyncable_def
      update_all_syncables_def ex_update_link_def ex_defs Let_def)

subsection \<open>C2: the page of links of a group\<close>

text \<open>
  C2 says that \<open>GroupGetAllGroupSyncablesByGroupPage\<close> returns exactly the live rows
  (\<open>DeleteAt = 0\<close>) of the group. Its \<open>SELECT\<close> filters on \<open>GroupId\<close> only. For the group
  \<open>ex_G\<close> of the second store, whose link to \<open>ex_T\<close> was soft-deleted at time 1500, the
  first page of team links holds the live link to \<open>ex_T2\<close> and, after it, the deleted link
  to \<open>ex_T\<close> with \<open>DeleteAt = 1500\<close>. The rows come ordered by \<open>CreateAt\<close> descending, each
  with the \<open>SyncableId\<close> of its \<open>TeamId\<close> column, and without error.
\<close>

theorem list_page_returns_soft_deleted_link:
  "GroupGetAllGroupSyncablesByGroupPage ex_env ex_removed_store ex_G GSTeam 0 10 =
     \<lparr>Data = Some
        [\<lparr>gs_GroupId = ex_G, gs_SyncableId = ex_T2, gs_CanLeave = True, gs_AutoAdd = False,
          gs_CreateAt = 950, gs_UpdateAt = 950, gs_DeleteAt = 0, gs_Type = GSTeam\<rparr>,
         \<lparr>gs_GroupId = ex_G, gs_SyncableId = ex_T, gs_CanLeave = True, gs_AutoAdd = True,
          gs_CreateAt = 900, gs_UpdateAt = 1500, gs_DeleteAt = 1500, gs_Type = GSTeam\<rparr>],
      Err = None\<rparr>"
  by (simp add: GroupGetAllGroupSyncablesByGroupPage_def select_page_def scan_GroupSyncable_def ex_defs)

subsection \<open>C3: getting one link\<close>

text \<open>
  C3 says that \<open>GroupGetGroupSyncable\<close> returns a not-found error when no row has the key,
  and otherwise an entity with the \<open>SyncableId\<close> that was queried. Every other method of
  the file that reads one row turns \<open>sql.ErrNoRows\<close> into an error of its own
  (\<open>GroupGet\<close>, and the same lookup by key in \<open>GroupUpdateGroupSyncable\<close> and
  \<open>GroupDeleteGroupSyncable\<close>); this one sets an error only when the error of \<open>SelectOne\<close>
  is not \<open>sql.ErrNoRows\<close>. The store has no link of \<open>ex_G\<close> to the team \<open>ex_T2\<close>: getting
  it returns no error, and \<open>Data\<close> holds the \<open>nil\<close> pointer that was never filled.
\<close>

theorem get_absent_link_returns_no_error:
  "syncable_key_rows GSTeam ex_store ex_G ex_T2 = [] \<and>
   GroupGetGroupSyncable ex_env ex_store ex_G ex_T2 GSTeam = \<lparr>Data = None, Err = None\<rparr>"
  by (simp add: GroupGetGroupSyncable_def syncable_key_rows_def ex_defs)

subsection \<open>C4: pending team memberships\<close>

text \<open>
  C4 says that \<open>PendingAutoAddTeamMemberships\<close> returns exactly the pairs of a user and a
  team that a live group with a live \<open>AutoAdd\<close> team link calls for. Its statement reads
  the column \<open>GroupTeams.SyncableId\<close>, and \<open>initSqlSupplierGroups\<close> has renamed that column
  to \<open>TeamId\<close>: for every store, every content of the other stores' tables and every
  watermark the database refuses the statement, and the method returns the error
  \<open>store.sql_group.select_error\<close> and no data. (The statement is also run with \<open>Exec\<close>,
  whose result holds no rows.)
\<close>

theorem pending_team_statement_fails:
  "run_select (database st ext) (PendingAutoAddTeamMemberships_sql m) = Inl (ErrUnknownColumn ''GroupTeams'' ''SyncableId'')
   \<and> PendingAutoAddTeamMemberships st ext m =
       error_result ''SqlGroupStore.PendingAutoAddTeamMemberships'' ''store.sql_group.select_error'' StatusInternalServerError"
proof -
  have k1: "known_column (database st ext) (''GroupMembers'', ''UserId'')"
    by (simp add: known_column_def database_def GroupMembers_table_def)
  have k2: "\<not> known_column (database st ext) (''GroupTeams'', ''SyncableId'')"
    by (simp add: known_column_def database_def syncable_sqltable_def)
  obtain rest where "stmt_columns (PendingAutoAddTeamMemberships_sql m) =
      (''GroupMembers'', ''UserId'') # (''GroupTeams'', ''SyncableId'') # rest"
    by (simp add: stmt_columns_def PendingAutoAddTeamMemberships_sql_def)
  with k1 k2 have r: "run_select (database st ext) (PendingAutoAddTeamMemberships_sql m) = Inl (ErrUnknownColumn ''GroupTeams'' ''SyncableId'')"
    by (simp add: run_select_def)
  then show ?thesis
    by (simp add: PendingAutoAddTeamMemberships_def Exec_def)
qed

subsection \<open>C5: pending channel memberships\<close>


subsection \<open>C6: a removed member cannot be added again\<close>

text \<open>
  C6: when \<open>GroupDeleteMember\<close> has succeeded for a group and a user, \<open>GroupCreateMember\<close>
  for the same group and user, at any later time, fails with
  \<open>store.sql_group.create_member.unique_error\<close> and writes nothing: the soft-deleted row
  still holds the primary key. The validation of the member is a function of package
  \<open>model\<close>; it is taken to accept a member whose two identifiers pass \<open>IsValidId\<close>, which
  the removal has checked.
\<close>

theorem remove_then_add_member_conflict:
  assumes "GroupDeleteMember M t1 st groupID userID = (res, st')"
    and "Err res = None"
    and "\<forall>m. IsValidId M (gm_GroupId m) \<and> IsValidId M (gm_UserId m) \<longrightarrow> GroupMember_IsValid M m = None"
  shows "GroupCreateMember M t2 st' groupID userID =
           (error_result ''SqlGroupStore.CreateMember'' ''store.sql_group.create_member.unique_error'' StatusBadRequest, st')"
proof -
  from GroupDeleteMember_success_key [OF assms(1,2)]
  have v: "IsValidId M groupID" "IsValidId M userID"
    and k: "(groupID, userID) \<in> set (map member_key (GroupMembers st'))" by auto
  let ?m = "\<lparr>gm_GroupId = groupID, gm_UserId = userID, gm_CreateAt = t2, gm_DeleteAt = 0\<rparr>"
  from assms(3) v have "GroupMember_IsValid M ?m = None" by simp
  moreover from k have "gorp_Insert_GroupMembers (GroupMembers st') ?m = Inl ErrUniqueConstraint"
    by (simp add: gorp_Insert_GroupMembers_def member_key_def)
  ultimately show ?thesis
    by (simp add: GroupCreateMember_def IsUniqueConstraintError_def)
qed

text \<open>
  On the store: removing the member at time 1500 succeeds and leaves the row with
  \<open>DeleteAt = 1500\<close>; adding the member again at time 2000 is refused.
\<close>

theorem remove_then_add_member_conflict_witness:
  "Err (fst (GroupDeleteMember ex_env 1500 ex_store ex_G ex_U1)) = None \<and>
   GroupMembers (snd (GroupDeleteMember ex_env 1500 ex_store ex_G ex_U1)) = [ex_member\<lparr>gm_DeleteAt := 1500\<rparr>] \<and>
   GroupCreateMember ex_env 2000 (snd (GroupDeleteMember ex_env 1500 ex_store ex_G ex_U1)) ex_G ex_U1 =
     (error_result ''SqlGroupStore.CreateMember'' ''store.sql_group.create_member.unique_error'' StatusBadRequest,
      snd (GroupDeleteMember ex_env 1500 ex_store ex_G ex_U1))"
proof -
  have d: "GroupDeleteMember ex_env 1500 ex_store ex_G ex_U1 =
      (\<lparr>Data = Some (ex_member\<lparr>gm_DeleteAt := 1500\<rparr>), Err = None\<rparr>,
       ex_store\<lparr>GroupMembers := [ex_member\<lparr>gm_DeleteAt := 1500\<rparr>]\<rparr>)"
    by (simp add: GroupDeleteMember_def gorp_Update_GroupMembers_def member_key_def ex_defs Let_def)
  have v: "\<forall>m. IsValidId ex_env (gm_GroupId m) \<and> IsValidId ex_env (gm_UserId m) \<longrightarrow> GroupMember_IsValid ex_env m = None"
    by (simp add: ex_env_def)
  from remove_then_add_member_conflict [OF d _ v, of 2000] d
  show ?thesis by simp
qed

subsection \<open>C7: an update keeps the stored \<open>CreateAt\<close> and \<open>DeleteAt\<close>\<close>

text \<open>
  C7: a successful \<open>GroupUpdate\<close> leaves \<open>CreateAt\<close> and \<open>DeleteAt\<close> of every stored group
  as they were, and the group it returns carries the stored values of the group with its
  id, whatever the caller sent in these fields; a successful \<open>GroupUpdateGroupSyncable\<close>
  leaves \<open>CreateAt\<close> and \<open>DeleteAt\<close> of every row of both link tables as they were, and the
  link it returns carries the stored values of the row with its key. The file has no
  update of a group member: a member is only created and soft-deleted.
\<close>

theorem update_preserves_CreateAt_DeleteAt:
  "(GroupUpdate M now st grp = (res, st') \<and> Err res = None \<longrightarrow>
      group_stamps (Groups st') = group_stamps (Groups st) \<and>
      (\<exists>stored \<in> set (Groups st). g_Id stored = g_Id grp \<and>
         (\<exists>g'. Data res = Some g' \<and> g_CreateAt g' = g_CreateAt stored \<and> g_DeleteAt g' = g_DeleteAt stored)))
   \<and> (GroupUpdateGroupSyncable M now st gs = (res2, st2) \<and> Err res2 = None \<longrightarrow>
      (\<forall>t. syncable_stamps (syncable_table t st2) = syncable_stamps (syncable_table t st)) \<and>
      (\<exists>stored \<in> set (syncable_table (gs_Type gs) st).
         row_GroupId stored = gs_GroupId gs \<and> row_FkId stored = gs_SyncableId gs \<and>
         (\<exists>gs'. Data res2 = Some gs' \<and> gs_CreateAt gs' = row_CreateAt stored \<and> gs_DeleteAt gs' = row_DeleteAt stored)))"
proof (intro conjI impI)
  assume a: "GroupUpdate M now st grp = (res, st') \<and> Err res = None"
  then have a1: "GroupUpdate M now st grp = (res, st')" and a2: "Err res = None" by simp_all
  from GroupUpdate_success [OF a1 a2] obtain retrieved where
    f: "filter (\<lambda>g. g_Id g = g_Id grp) (Groups st) = [retrieved]"
    and r: "res = \<lparr>Data = Some (grp\<lparr>g_DeleteAt := g_DeleteAt retrieved, g_CreateAt := g_CreateAt retrieved, g_UpdateAt := now\<rparr>), Err = None\<rparr>"
    and s: "st' = st\<lparr>Groups := map (\<lambda>r. if g_Id r = g_Id grp
         then grp\<lparr>g_DeleteAt := g_DeleteAt retrieved, g_CreateAt := g_CreateAt retrieved, g_UpdateAt := now\<rparr> else r) (Groups st)\<rparr>"
    by (elim exE conjE)
  from f s show "group_stamps (Groups st') = group_stamps (Groups st)"
    by (simp add: group_update_stamps)
  from filter_single_mem [OF f] have "retrieved \<in> set (Groups st)" "g_Id retrieved = g_Id grp" by auto
  with r show "\<exists>stored \<in> set (Groups st). g_Id stored = g_Id grp \<and>
         (\<exists>g'. Data res = Some g' \<and> g_CreateAt g' = g_CreateAt stored \<and> g_DeleteAt g' = g_DeleteAt stored)"
    by (intro bexI [of _ retrieved]) simp_all
next
  assume a: "GroupUpdateGroupSyncable M now st gs = (res2, st2) \<and> Err res2 = None"
  then have a1: "GroupUpdateGroupSyncable M now st gs = (res2, st2)" and a2: "Err res2 = None" by simp_all
  from GroupUpdateGroupSyncable_success [OF a1 a2] obtain r where
    f: "syncable_key_rows (gs_Type gs) st (gs_GroupId gs) (gs_SyncableId gs) = [r]"
    and rr: "res2 = \<lparr>Data = Some (gs\<lparr>gs_DeleteAt := row_DeleteAt r, gs_CreateAt := row_CreateAt r, gs_UpdateAt := now\<rparr>), Err = None\<rparr>"
    and s: "st2 = set_syncable_table (gs_Type gs)
             (update_all_syncables (syncable_table (gs_Type gs) st) (gs_CanLeave gs) (gs_AutoAdd gs) now) st"
    by (elim exE conjE)
  show "\<forall>t. syncable_stamps (syncable_table t st2) = syncable_stamps (syncable_table t st)"
  proof
    fix t show "syncable_stamps (syncable_table t st2) = syncable_stamps (syncable_table t st)"
    proof (cases "t = gs_Type gs")
      case True
      with s show ?thesis by (simp add: update_all_syncables_stamps)
    next
      case False
      then have "gs_Type gs \<noteq> t" by simp
      with s show ?thesis by (simp add: syncable_table_set_other)
    qed
  qed
  from f have "filter (\<lambda>x. row_GroupId x = gs_GroupId gs \<and> row_FkId x = gs_SyncableId gs) (syncable_table (gs_Type gs) st) = [r]"
    by (simp add: syncable_key_rows_def)
  from filter_single_mem [OF this]
  have "r \<in> set (syncable_table (gs_Type gs) st)" "row_GroupId r = gs_GroupId gs" "row_FkId r = gs_SyncableId gs"
    by auto
  with rr show "\<exists>stored \<in> set (syncable_table (gs_Type gs) st).
         row_GroupId stored = gs_GroupId gs \<and> row_FkId stored = gs_SyncableId gs \<and>
         (\<exists>gs'. Data res2 = Some gs' \<and> gs_CreateAt gs' = row_CreateAt stored \<and> gs_DeleteAt gs' = row_DeleteAt stored)"
    by (intro bexI [of _ r]) simp_all
qed

text \<open>
  On the store, at time 5000: the caller sends the group with \<open>CreateAt = 1\<close> and
  \<open>DeleteAt = 7\<close> and the link with \<open>CreateAt = 1\<close> and \<open>DeleteAt = 3\<close>; both updates succeed
  and the stored values stay 800 and 0 for the group, 900 and 0, 950 and 0 for the links.
\<close>

theorem update_preserves_CreateAt_DeleteAt_witness:
  "Err (fst (GroupUpdate ex_env 5000 ex_store ex_update_group)) = None \<and>
   group_stamps (Groups (snd (GroupUpdate ex_env 5000 ex_store ex_update_group))) = [(ex_G, 800, 0)] \<and>
   Err (fst (GroupUpdateGroupSyncable ex_env 5000 ex_store ex_update_link)) = None \<and>
   syncable_stamps (GroupTeams (snd (GroupUpdateGroupSyncable ex_env 5000 ex_store ex_update_link))) =
     [(ex_G, ex_T, 900, 0), (ex_G2, ex_T2, 950, 0)]"
proof -
  have u: "GroupUpdate ex_env 5000 ex_store ex_update_group =
      (\<lparr>Data = Some (ex_update_group\<lparr>g_DeleteAt := 0, g_CreateAt := 800, g_UpdateAt := 5000\<rparr>), Err = None\<rparr>,
       ex_store\<lparr>Groups := [ex_update_group\<lparr>g_DeleteAt := 0, g_CreateAt := 800, g_UpdateAt := 5000\<rparr>]\<rparr>)"
    by (simp add: GroupUpdate_def gorp_Update_Groups_def ex_update_group_def ex_defs Let_def)
  have s: "GroupUpdateGroupSyncable ex_env 5000 ex_store ex_update_link =
     (\<lparr>Data = Some (ex_update_link\<lparr>gs_DeleteAt := 0, gs_CreateAt := 900, gs_UpdateAt := 5000\<rparr>), Err = None\<rparr>,
      ex_store\<lparr>GroupTeams :=
        [ex_team_link\<lparr>row_AutoAdd := False, row_UpdateAt := 5000\<rparr>,
         ex_other_team_link\<lparr>row_CanLeave := True, row_AutoAdd := False, row_UpdateAt := 5000\<rparr>]\<rparr>)"
    by (simp add: GroupUpdateGroupSyncable_def syncable_key_rows_def scan_GroupSyncable_def
      update_all_syncables_def ex_update_link_def ex_defs Let_def)
  have g0: "group_stamps (Groups ex_store) = [(ex_G, 800, 0)]"
    by (simp add: group_stamps_def ex_store_def ex_group_def)
  have s0: "syncable_stamps (syncable_table GSTeam ex_store) = [(ex_G, ex_T, 900, 0), (ex_G2, ex_T2, 950, 0)]"
    by (simp add: syncable_stamps_def ex_store_def ex_team_link_def ex_other_team_link_def)
  from update_preserves_CreateAt_DeleteAt [of ex_env 5000 ex_store ex_update_group
      "fst (GroupUpdate ex_env 5000 ex_store ex_update_group)" "snd (GroupUpdate ex_env 5000 ex_store ex_update_group)"
      ex_update_link
      "fst (GroupUpdateGroupSyncable ex_env 5000 ex_store ex_update_link)"
      "snd (GroupUpdateGroupSyncable ex_env 5000 ex_store ex_update_link)"]
  have c: "group_stamps (Groups (snd (GroupUpdate ex_env 5000 ex_store ex_update_group))) = group_stamps (Groups ex_store)
      \<and> (\<forall>t. syncable_stamps (syncable_table t (snd (GroupUpdateGroupSyncable ex_env 5000 ex_store ex_update_link)))
         = syncable_stamps (syncable_table t ex_store))"
    by (simp add: u s)
  then have "syncable_stamps (syncable_table GSTeam (snd (GroupUpdateGroupSyncable ex_env 5000 ex_store ex_update_link)))
         = syncable_stamps (syncable_table GSTeam ex_store)"
    by blast
  with c g0 s0 show ?thesis by (simp add: u s)
qed

subsection \<open>C8: deleting what is already deleted\<close>

text \<open>
  C8: for a stored group, member or link whose \<open>DeleteAt\<close> is not zero, \<open>GroupDelete\<close>,
  \<open>GroupDeleteMember\<close> and \<open>GroupDeleteGroupSyncable\<close> return the error \<open>already_deleted\<close>
  of their own and leave the store as it was. The rows of each table have distinct
  primary keys. \<open>GroupDeleteMember\<close> and \<open>GroupDeleteGroupSyncable\<close> check the
  identifiers first, so the identifiers of the stored member and link pass \<open>IsValidId\<close>,
  as the identifiers of rows created through this store do; \<open>GroupDelete\<close> goes on after an
  invalid id and needs no such condition.
\<close>

theorem soft_delete_of_deleted_is_conflict:
  "(g \<in> set (Groups st) \<and> distinct (map g_Id (Groups st)) \<and> g_DeleteAt g \<noteq> 0 \<longrightarrow>
      GroupDelete M t st (g_Id g) =
        (error_result ''SqlGroupStore.Delete'' ''store.sql_group.delete.already_deleted'' StatusInternalServerError, st))
   \<and> (m \<in> set (GroupMembers st) \<and> distinct (map member_key (GroupMembers st)) \<and> gm_DeleteAt m \<noteq> 0 \<and>
      IsValidId M (gm_GroupId m) \<and> IsValidId M (gm_UserId m) \<longrightarrow>
      GroupDeleteMember M t st (gm_GroupId m) (gm_UserId m) =
        (error_result ''SqlGroupStore.DeleteMember'' ''store.sql_group.delete_member.already_deleted'' StatusInternalServerError, st))
   \<and> (r \<in> set (syncable_table ty st) \<and> distinct (map syncable_key (syncable_table ty st)) \<and> row_DeleteAt r \<noteq> 0 \<and>
      IsValidId M (row_GroupId r) \<and> IsValidId M (row_FkId r) \<longrightarrow>
      GroupDeleteGroupSyncable M t st (row_GroupId r) (row_FkId r) ty =
        (error_result ''SqlGroupStore.DeleteGroupSyncable'' ''store.sql_group.delete_group_syncable.already_deleted'' StatusBadRequest, st))"
  using GroupDelete_already_deleted [OF group_select_stored]
    GroupDeleteMember_already_deleted [OF member_select_stored]
    GroupDeleteGroupSyncable_already_deleted [OF syncable_select_stored]
  by blast

text \<open>
  On the second store, whose group, member and team link were soft-deleted at time 1500.
\<close>

theorem soft_delete_of_deleted_is_conflict_witness:
  "GroupDelete ex_env 2000 ex_removed_store ex_G =
     (error_result ''SqlGroupStore.Delete'' ''store.sql_group.delete.already_deleted'' StatusInternalServerError, ex_removed_store)
   \<and> GroupDeleteMember ex_env 2000 ex_removed_store ex_G ex_U1 =
     (error_result ''SqlGroupStore.DeleteMember'' ''store.sql_group.delete_member.already_deleted'' StatusInternalServerError, ex_removed_store)
   \<and> GroupDeleteGroupSyncable ex_env 2000 ex_removed_store ex_G ex_T GSTeam =
     (error_result ''SqlGroupStore.DeleteGroupSyncable'' ''store.sql_group.delete_group_syncable.already_deleted'' StatusBadRequest, ex_removed_store)"
proof -
  let ?g = "ex_group\<lparr>g_UpdateAt := 1500, g_DeleteAt := 1500\<rparr>"
  let ?m = "ex_member\<lparr>gm_DeleteAt := 1500\<rparr>"
  let ?r = "ex_team_link\<lparr>row_UpdateAt := 1500, row_DeleteAt := 1500\<rparr>"
  have h1: "?g \<in> set (Groups ex_removed_store) \<and> distinct (map g_Id (Groups ex_removed_store)) \<and> g_DeleteAt ?g \<noteq> 0"
    by (simp add: ex_removed_store_def)
  have h2: "?m \<in> set (GroupMembers ex_removed_store) \<and> distinct (map member_key (GroupMembers ex_removed_store)) \<and>
            gm_DeleteAt ?m \<noteq> 0 \<and> IsValidId ex_env (gm_GroupId ?m) \<and> IsValidId ex_env (gm_UserId ?m)"
    by (simp add: ex_defs)
  have h3: "?r \<in> set (syncable_table GSTeam ex_removed_store) \<and>
            distinct (map syncable_key (syncable_table GSTeam ex_removed_store)) \<and> row_DeleteAt ?r \<noteq> 0 \<and>
            IsValidId ex_env (row_GroupId ?r) \<and> IsValidId ex_env (row_FkId ?r)"
    by (simp add: ex_defs syncable_key_def)
  have k: "g_Id ?g = ex_G" "gm_GroupId ?m = ex_G" "gm_UserId ?m = ex_U1" "row_GroupId ?r = ex_G" "row_FkId ?r = ex_T"
    by (simp_all add: ex_group_def ex_member_def ex_team_link_def)
  from soft_delete_of_deleted_is_conflict [of ?g ex_removed_store ex_env 2000 ?m ?r GSTeam] h1 h2 h3
  show ?thesis unfolding k by blast
qed

subsection \<open>C9: an update that changes nothing\<close>

text \<open>
  C9: for a link stored under distinct keys, \<open>GroupUpdateGroupSyncable\<close> with \<open>AutoAdd\<close> and
  \<open>CanLeave\<close> equal to the stored values, and an input that passes the validation of
  package \<open>model\<close> (which the method runs before it compares), returns the error
  \<open>store.sql_group.update_group_syncable.no_change\<close> and leaves the store as it was; a
  \<open>GroupGetGroupSyncable\<close> of the link afterwards returns it with the stored \<open>UpdateAt\<close>.
\<close>

theorem update_without_change_is_NoChange:
  assumes "r \<in> set (syncable_table (gs_Type gs) st)"
    and "distinct (map syncable_key (syncable_table (gs_Type gs) st))"
    and "row_GroupId r = gs_GroupId gs" and "row_FkId r = gs_SyncableId gs"
    and "gs_AutoAdd gs = row_AutoAdd r" and "gs_CanLeave gs = row_CanLeave r"
    and "GroupSyncable_IsValid M gs = None"
  shows "GroupUpdateGroupSyncable M now st gs =
           (error_result ''SqlGroupStore.UpdateGroupSyncable'' ''store.sql_group.update_group_syncable.no_change'' StatusInternalServerError, st)
         \<and> (\<exists>x. Data (GroupGetGroupSyncable M (snd (GroupUpdateGroupSyncable M now st gs))
                        (gs_GroupId gs) (gs_SyncableId gs) (gs_Type gs)) = Some x
                \<and> gs_UpdateAt x = row_UpdateAt r)"
proof -
  from syncable_select_stored [OF assms(2,1)] assms(3,4)
  have sel: "SelectOne (syncable_key_rows (gs_Type gs) st (gs_GroupId gs) (gs_SyncableId gs)) = Inr r"
    by simp
  with assms(5-7) have u: "GroupUpdateGroupSyncable M now st gs =
           (error_result ''SqlGroupStore.UpdateGroupSyncable'' ''store.sql_group.update_group_syncable.no_change'' StatusInternalServerError, st)"
    by (simp add: GroupUpdateGroupSyncable_def scan_GroupSyncable_def)
  from sel have "Data (GroupGetGroupSyncable M st (gs_GroupId gs) (gs_SyncableId gs) (gs_Type gs))
      = Some ((scan_GroupSyncable M r)\<lparr>gs_SyncableId := gs_SyncableId gs\<rparr>)"
    by (simp add: GroupGetGroupSyncable_def)
  with u show ?thesis by (simp add: scan_GroupSyncable_def)
qed

text \<open>
  On the store: sending the team link with the stored flags at time 5000 is refused, and
  the link still has \<open>UpdateAt = 900\<close>.
\<close>

theorem update_without_change_is_NoChange_witness:
  "GroupUpdateGroupSyncable ex_env 5000 ex_store (ex_update_link\<lparr>gs_AutoAdd := True\<rparr>) =
     (error_result ''SqlGroupStore.UpdateGroupSyncable'' ''store.sql_group.update_group_syncable.no_change'' StatusInternalServerError, ex_store)
   \<and> (\<exists>x. Data (GroupGetGroupSyncable ex_env (snd (GroupUpdateGroupSyncable ex_env 5000 ex_store (ex_update_link\<lparr>gs_AutoAdd := True\<rparr>)))
                    ex_G ex_T GSTeam) = Some x \<and> gs_UpdateAt x = 900)"
proof -
  let ?gs = "ex_update_link\<lparr>gs_AutoAdd := True\<rparr>"
  have k: "gs_Type ?gs = GSTeam" "gs_GroupId ?gs = ex_G" "gs_SyncableId ?gs = ex_T" "row_UpdateAt ex_team_link = 900"
    by (simp_all add: ex_update_link_def ex_team_link_def)
  have h1: "ex_team_link \<in> set (syncable_table (gs_Type ?gs) ex_store)"
    and h2: "distinct (map syncable_key (syncable_table (gs_Type ?gs) ex_store))"
    and h3: "row_GroupId ex_team_link = gs_GroupId ?gs" and h4: "row_FkId ex_team_link = gs_SyncableId ?gs"
    and h5: "gs_AutoAdd ?gs = row_AutoAdd ex_team_link" and h6: "gs_CanLeave ?gs = row_CanLeave ex_team_link"
    and h7: "GroupSyncable_IsValid ex_env ?gs = None"
    by (simp_all add: ex_update_link_def ex_defs syncable_key_def)
  from update_without_change_is_NoChange [OF h1 h2 h3 h4 h5 h6 h7, of 5000]
  show ?thesis unfolding k .
qed

subsection \<open>C10: updates do not look at \<open>DeleteAt\<close>\<close>

text \<open>
  C10: a soft-deleted group stored under distinct ids is updated like a live one. With an
  input that passes the validation and a name no other group has, \<open>GroupUpdate\<close> returns
  the caller's group with the stored \<open>CreateAt\<close> and \<open>DeleteAt\<close> and the time of the call as
  \<open>UpdateAt\<close>, without error, and writes exactly this group over the stored one; the
  group stays soft-deleted, and \<open>GroupDelete\<close> of it afterwards still fails with
  \<open>already_deleted\<close>. In the same way a soft-deleted link stored under distinct keys is
  updated by \<open>GroupUpdateGroupSyncable\<close> when the input is valid and changes \<open>AutoAdd\<close> or
  \<open>CanLeave\<close>: the method returns the caller's link with the stored \<open>CreateAt\<close> and
  \<open>DeleteAt\<close>, without error, the stored row takes the caller's two flags and the time
  of the call and keeps its \<open>DeleteAt\<close>, and \<open>GroupDeleteGroupSyncable\<close> of it afterwards
  still fails with \<open>already_deleted\<close>.
\<close>

theorem update_does_not_check_DeleteAt:
  "(g \<in> set (Groups st) \<and> distinct (map g_Id (Groups st)) \<and> g_DeleteAt g \<noteq> 0 \<and> g_Id grp = g_Id g \<and>
    Group_IsValidForUpdate M (grp\<lparr>g_DeleteAt := g_DeleteAt g, g_CreateAt := g_CreateAt g, g_UpdateAt := now\<rparr>) = None \<and>
    (\<forall>x \<in> set (Groups st). g_Id x \<noteq> g_Id grp \<longrightarrow> g_Name x \<noteq> g_Name grp) \<longrightarrow>
      GroupUpdate M now st grp =
        (\<lparr>Data = Some (grp\<lparr>g_DeleteAt := g_DeleteAt g, g_CreateAt := g_CreateAt g, g_UpdateAt := now\<rparr>), Err = None\<rparr>,
         st\<lparr>Groups := map (\<lambda>x. if g_Id x = g_Id grp
               then grp\<lparr>g_DeleteAt := g_DeleteAt g, g_CreateAt := g_CreateAt g, g_UpdateAt := now\<rparr> else x) (Groups st)\<rparr>) \<and>
      filter (\<lambda>x. g_Id x = g_Id g) (Groups (snd (GroupUpdate M now st grp))) =
        [grp\<lparr>g_DeleteAt := g_DeleteAt g, g_CreateAt := g_CreateAt g, g_UpdateAt := now\<rparr>] \<and>
      GroupDelete M t (snd (GroupUpdate M now st grp)) (g_Id g) =
        (error_result ''SqlGroupStore.Delete'' ''store.sql_group.delete.already_deleted'' StatusInternalServerError,
         snd (GroupUpdate M now st grp)))
   \<and> (r \<in> set (syncable_table (gs_Type gs) st) \<and> distinct (map syncable_key (syncable_table (gs_Type gs) st)) \<and>
      row_DeleteAt r \<noteq> 0 \<and> row_GroupId r = gs_GroupId gs \<and> row_FkId r = gs_SyncableId gs \<and>
      (gs_AutoAdd gs \<noteq> row_AutoAdd r \<or> gs_CanLeave gs \<noteq> row_CanLeave r) \<and>
      GroupSyncable_IsValid M gs = None \<and> IsValidId M (gs_GroupId gs) \<and> IsValidId M (gs_SyncableId gs) \<longrightarrow>
      GroupUpdateGroupSyncable M now st gs =
        (\<lparr>Data = Some (gs\<lparr>gs_DeleteAt := row_DeleteAt r, gs_CreateAt := row_CreateAt r, gs_UpdateAt := now\<rparr>), Err = None\<rparr>,
         set_syncable_table (gs_Type gs)
           (update_all_syncables (syncable_table (gs_Type gs) st) (gs_CanLeave gs) (gs_AutoAdd gs) now) st) \<and>
      syncable_key_rows (gs_Type gs) (snd (GroupUpdateGroupSyncable M now st gs)) (gs_GroupId gs) (gs_SyncableId gs) =
        [r\<lparr>row_CanLeave := gs_CanLeave gs, row_AutoAdd := gs_AutoAdd gs, row_UpdateAt := now\<rparr>] \<and>
      GroupDeleteGroupSyncable M t (snd (GroupUpdateGroupSyncable M now st gs)) (gs_GroupId gs) (gs_SyncableId gs) (gs_Type gs) =
        (error_result ''SqlGroupStore.DeleteGroupSyncable'' ''store.sql_group.delete_group_syncable.already_deleted'' StatusBadRequest,
         snd (GroupUpdateGroupSyncable M now st gs)))"
proof (intro conjI impI)
  assume a: "g \<in> set (Groups st) \<and> distinct (map g_Id (Groups st)) \<and> g_DeleteAt g \<noteq> 0 \<and> g_Id grp = g_Id g \<and>
    Group_IsValidForUpdate M (grp\<lparr>g_DeleteAt := g_DeleteAt g, g_CreateAt := g_CreateAt g, g_UpdateAt := now\<rparr>) = None \<and>
    (\<forall>x \<in> set (Groups st). g_Id x \<noteq> g_Id grp \<longrightarrow> g_Name x \<noteq> g_Name grp)"
  let ?g = "grp\<lparr>g_DeleteAt := g_DeleteAt g, g_CreateAt := g_CreateAt g, g_UpdateAt := now\<rparr>"
  let ?f = "\<lambda>x. if g_Id x = g_Id grp then ?g else x"
  let ?st = "st\<lparr>Groups := map ?f (Groups st)\<rparr>"
  from a have m: "g \<in> set (Groups st)" and d: "distinct (map g_Id (Groups st))" and del: "g_DeleteAt g \<noteq> 0"
    and i: "g_Id grp = g_Id g"
    and v: "Group_IsValidForUpdate M ?g = None"
    and n: "\<forall>x \<in> set (Groups st). g_Id x \<noteq> g_Id grp \<longrightarrow> g_Name x \<noteq> g_Name grp"
    by simp_all
  show u: "GroupUpdate M now st grp = (\<lparr>Data = Some ?g, Err = None\<rparr>, ?st)"
    by (rule GroupUpdate_stored [OF m d i v n])
  have k: "\<And>x. g_Id (?f x) = g_Id x" by simp
  from filter_key_single [where f = g_Id, OF d m]
  have "filter (\<lambda>x. g_Id x = g_Id g) (Groups st) = [g]" .
  with filter_map_same_key [where k = g_Id and f = ?f and i = "g_Id g" and xs = "Groups st", OF k] i
  have f': "filter (\<lambda>x. g_Id x = g_Id g) (Groups ?st) = [?g]" by simp
  with u show "filter (\<lambda>x. g_Id x = g_Id g) (Groups (snd (GroupUpdate M now st grp))) = [?g]"
    by simp
  from f' have "SelectOne (filter (\<lambda>x. g_Id x = g_Id g) (Groups ?st)) = Inr ?g" by simp
  from GroupDelete_already_deleted [OF this] del
  have "GroupDelete M t ?st (g_Id g) =
           (error_result ''SqlGroupStore.Delete'' ''store.sql_group.delete.already_deleted'' StatusInternalServerError, ?st)"
    by simp
  with u show "GroupDelete M t (snd (GroupUpdate M now st grp)) (g_Id g) =
        (error_result ''SqlGroupStore.Delete'' ''store.sql_group.delete.already_deleted'' StatusInternalServerError,
         snd (GroupUpdate M now st grp))"
    by simp
next
  assume a: "r \<in> set (syncable_table (gs_Type gs) st) \<and> distinct (map syncable_key (syncable_table (gs_Type gs) st)) \<and>
      row_DeleteAt r \<noteq> 0 \<and> row_GroupId r = gs_GroupId gs \<and> row_FkId r = gs_SyncableId gs \<and>
      (gs_AutoAdd gs \<noteq> row_AutoAdd r \<or> gs_CanLeave gs \<noteq> row_CanLeave r) \<and>
      GroupSyncable_IsValid M gs = None \<and> IsValidId M (gs_GroupId gs) \<and> IsValidId M (gs_SyncableId gs)"
  let ?gs = "gs\<lparr>gs_DeleteAt := row_DeleteAt r, gs_CreateAt := row_CreateAt r, gs_UpdateAt := now\<rparr>"
  let ?f = "\<lambda>x. x\<lparr>row_CanLeave := gs_CanLeave gs, row_AutoAdd := gs_AutoAdd gs, row_UpdateAt := now\<rparr>"
  let ?st = "set_syncable_table (gs_Type gs)
        (update_all_syncables (syncable_table (gs_Type gs) st) (gs_CanLeave gs) (gs_AutoAdd gs) now) st"
  from a have m: "r \<in> set (syncable_table (gs_Type gs) st)"
    and d: "distinct (map syncable_key (syncable_table (gs_Type gs) st))"
    and del: "row_DeleteAt r \<noteq> 0"
    and i1: "row_GroupId r = gs_GroupId gs" and i2: "row_FkId r = gs_SyncableId gs"
    and delta: "gs_AutoAdd gs \<noteq> row_AutoAdd r \<or> gs_CanLeave gs \<noteq> row_CanLeave r"
    and v: "GroupSyncable_IsValid M gs = None"
    and v1: "IsValidId M (gs_GroupId gs)" and v2: "IsValidId M (gs_SyncableId gs)"
    by simp_all
  show u: "GroupUpdateGroupSyncable M now st gs = (\<lparr>Data = Some ?gs, Err = None\<rparr>, ?st)"
    by (rule GroupUpdateGroupSyncable_stored [OF m d i1 i2 delta v])
  have k: "\<And>x. syncable_key (?f x) = syncable_key x" by (simp add: syncable_key_def)
  from filter_key_single [where f = syncable_key, OF d m]
  have "filter (\<lambda>x. syncable_key x = syncable_key r) (syncable_table (gs_Type gs) st) = [r]" .
  with filter_map_same_key [where k = syncable_key and f = ?f and i = "syncable_key r"
      and xs = "syncable_table (gs_Type gs) st", OF k]
  have "filter (\<lambda>x. syncable_key x = syncable_key r) (map ?f (syncable_table (gs_Type gs) st)) = [?f r]"
    by simp
  with i1 i2 have f': "syncable_key_rows (gs_Type gs) ?st (gs_GroupId gs) (gs_SyncableId gs) = [?f r]"
    by (simp add: syncable_key_rows_def update_all_syncables_def syncable_key_def)
  with u show "syncable_key_rows (gs_Type gs) (snd (GroupUpdateGroupSyncable M now st gs)) (gs_GroupId gs) (gs_SyncableId gs) = [?f r]"
    by simp
  from f' have "SelectOne (syncable_key_rows (gs_Type gs) ?st (gs_GroupId gs) (gs_SyncableId gs)) = Inr (?f r)"
    by simp
  from GroupDeleteGroupSyncable_already_deleted [OF this _ v1 v2] del
  have "GroupDeleteGroupSyncable M t ?st (gs_GroupId gs) (gs_SyncableId gs) (gs_Type gs) =
           (error_result ''SqlGroupStore.DeleteGroupSyncable'' ''store.sql_group.delete_group_syncable.already_deleted'' StatusBadRequest, ?st)"
    by simp
  with u show "GroupDeleteGroupSyncable M t (snd (GroupUpdateGroupSyncable M now st gs)) (gs_GroupId gs) (gs_SyncableId gs) (gs_Type gs) =
        (error_result ''SqlGroupStore.DeleteGroupSyncable'' ''store.sql_group.delete_group_syncable.already_deleted'' StatusBadRequest,
         snd (GroupUpdateGroupSyncable M now st gs))"
    by simp
qed

text \<open>
  On the second store, at time 5000: the soft-deleted group is stored under the new
  display name \<open>Platform\<close> with \<open>UpdateAt = 5000\<close>, and the soft-deleted team link is stored
  with \<open>AutoAdd\<close> switched off and \<open>UpdateAt = 5000\<close>; both keep \<open>DeleteAt = 1500\<close> and the
  stored \<open>CreateAt\<close>, not the time stamps the caller sent, and deleting them at time 6000
  is refused.
\<close>

theorem update_does_not_check_DeleteAt_witness:
  "GroupUpdate ex_env 5000 ex_removed_store ex_update_group =
     (\<lparr>Data = Some (ex_group\<lparr>g_DisplayName := ''Platform'', g_UpdateAt := 5000, g_DeleteAt := 1500\<rparr>), Err = None\<rparr>,
      ex_removed_store\<lparr>Groups := [ex_group\<lparr>g_DisplayName := ''Platform'', g_UpdateAt := 5000, g_DeleteAt := 1500\<rparr>]\<rparr>)
   \<and> GroupDelete ex_env 6000 (snd (GroupUpdate ex_env 5000 ex_removed_store ex_update_group)) ex_G =
     (error_result ''SqlGroupStore.Delete'' ''store.sql_group.delete.already_deleted'' StatusInternalServerError,
      snd (GroupUpdate ex_env 5000 ex_removed_store ex_update_group))
   \<and> Data (fst (GroupUpdateGroupSyncable ex_env 5000 ex_removed_store ex_update_link)) =
       Some (ex_update_link\<lparr>gs_DeleteAt := 1500, gs_CreateAt := 900, gs_UpdateAt := 5000\<rparr>)
   \<and> Err (fst (GroupUpdateGroupSyncable ex_env 5000 ex_removed_store ex_update_link)) = None
   \<and> syncable_key_rows GSTeam (snd (GroupUpdateGroupSyncable ex_env 5000 ex_removed_store ex_update_link)) ex_G ex_T =
       [ex_team_link\<lparr>row_AutoAdd := False, row_UpdateAt := 5000, row_DeleteAt := 1500\<rparr>]
   \<and> GroupDeleteGroupSyncable ex_env 6000 (snd (GroupUpdateGroupSyncable ex_env 5000 ex_removed_store ex_update_link)) ex_G ex_T GSTeam =
     (error_result ''SqlGroupStore.DeleteGroupSyncable'' ''store.sql_group.delete_group_syncable.already_deleted'' StatusBadRequest,
      snd (GroupUpdateGroupSyncable ex_env 5000 ex_removed_store ex_update_link))"
proof -
  let ?g = "ex_group\<lparr>g_UpdateAt := 1500, g_DeleteAt := 1500\<rparr>"
  let ?r = "ex_team_link\<lparr>row_UpdateAt := 1500, row_DeleteAt := 1500\<rparr>"
  have h1: "?g \<in> set (Groups ex_removed_store) \<and> distinct (map g_Id (Groups ex_removed_store)) \<and>
      g_DeleteAt ?g \<noteq> 0 \<and> g_Id ex_update_group = g_Id ?g \<and>
      Group_IsValidForUpdate ex_env (ex_update_group\<lparr>g_DeleteAt := g_DeleteAt ?g, g_CreateAt := g_CreateAt ?g, g_UpdateAt := 5000\<rparr>) = None \<and>
      (\<forall>x \<in> set (Groups ex_removed_store). g_Id x \<noteq> g_Id ex_update_group \<longrightarrow> g_Name x \<noteq> g_Name ex_update_group)"
    by (simp add: ex_update_group_def ex_defs)
  have h2: "?r \<in> set (syncable_table (gs_Type ex_update_link) ex_removed_store) \<and>
      distinct (map syncable_key (syncable_table (gs_Type ex_update_link) ex_removed_store)) \<and>
      row_DeleteAt ?r \<noteq> 0 \<and> row_GroupId ?r = gs_GroupId ex_update_link \<and> row_FkId ?r = gs_SyncableId ex_update_link \<and>
      (gs_AutoAdd ex_update_link \<noteq> row_AutoAdd ?r \<or> gs_CanLeave ex_update_link \<noteq> row_CanLeave ?r) \<and>
      GroupSyncable_IsValid ex_env ex_update_link = None \<and>
      IsValidId ex_env (gs_GroupId ex_update_link) \<and> IsValidId ex_env (gs_SyncableId ex_update_link)"
    by (simp add: ex_update_link_def ex_defs syncable_key_def)
  have k: "g_Id ?g = ex_G" "gs_Type ex_update_link = GSTeam" "gs_GroupId ex_update_link = ex_G"
    "gs_SyncableId ex_update_link = ex_T"
    by (simp_all add: ex_group_def ex_update_link_def)
  have e1: "ex_update_group\<lparr>g_DeleteAt := g_DeleteAt ?g, g_CreateAt := g_CreateAt ?g, g_UpdateAt := 5000\<rparr> =
            ex_group\<lparr>g_DisplayName := ''Platform'', g_UpdateAt := 5000, g_DeleteAt := 1500\<rparr>"
    by (simp add: ex_update_group_def ex_group_def)
  have e2: "ex_removed_store\<lparr>Groups := map (\<lambda>x. if g_Id x = g_Id ex_update_group
               then ex_group\<lparr>g_DisplayName := ''Platform'', g_UpdateAt := 5000, g_DeleteAt := 1500\<rparr> else x)
               (Groups ex_removed_store)\<rparr> =
            ex_removed_store\<lparr>Groups := [ex_group\<lparr>g_DisplayName := ''Platform'', g_UpdateAt := 5000, g_DeleteAt := 1500\<rparr>]\<rparr>"
    by (simp add: ex_removed_store_def ex_update_group_def ex_group_def)
  have e3: "ex_update_link\<lparr>gs_DeleteAt := row_DeleteAt ?r, gs_CreateAt := row_CreateAt ?r, gs_UpdateAt := 5000\<rparr> =
            ex_update_link\<lparr>gs_DeleteAt := 1500, gs_CreateAt := 900, gs_UpdateAt := 5000\<rparr>"
    by (simp add: ex_team_link_def)
  have e4: "?r\<lparr>row_CanLeave := gs_CanLeave ex_update_link, row_AutoAdd := gs_AutoAdd ex_update_link, row_UpdateAt := 5000\<rparr> =
            ex_team_link\<lparr>row_AutoAdd := False, row_UpdateAt := 5000, row_DeleteAt := 1500\<rparr>"
    by (simp add: ex_team_link_def ex_update_link_def)
  note c1 = update_does_not_check_DeleteAt
    [of ?g ex_removed_store ex_update_group ex_env 5000 6000 ?r ex_update_link,
     THEN conjunct1, THEN mp, OF h1, unfolded k e1 e2]
  note c2 = update_does_not_check_DeleteAt
    [of ?g ex_removed_store ex_update_group ex_env 5000 6000 ?r ex_update_link,
     THEN conjunct2, THEN mp, OF h2, unfolded k e3 e4]
  from c2 [THEN conjunct1]
  have d: "Data (fst (GroupUpdateGroupSyncable ex_env 5000 ex_removed_store ex_update_link)) =
       Some (ex_update_link\<lparr>gs_DeleteAt := 1500, gs_CreateAt := 900, gs_UpdateAt := 5000\<rparr>)"
    and e: "Err (fst (GroupUpdateGroupSyncable ex_env 5000 ex_removed_store ex_update_link)) = None"
    by simp_all
  from c1 c2 d e show ?thesis by blast
qed

end
